theory Spec2Isabelle
  imports Complex_Main "HOL-Library.List_Lexorder" "HOL-Library.Char_ord" "HOL-Library.Sublist"
begin

section \<open>Numbers, exceptions and the retry combinator\<close>

text \<open>
  Amounts, balances and the rates of a JSON response are JavaScript numbers holding decimal
  values; they are modelled as \<^typ>\<open>real\<close>, with exact arithmetic. The rounding of
  IEEE doubles and of the \<^verbatim>\<open>decimal(20,8)\<close> columns is outside the model.
  Delays are whole milliseconds and the attempt counter is a natural number.

  A thrown value is either an \<^verbatim>\<open>HttpException(message, status)\<close> or any other
  \<^verbatim>\<open>Error(message)\<close>; the services tell them apart with \<^verbatim>\<open>instanceof\<close>.
\<close>

datatype exn = HttpException string nat | Error string

fun isHttpException :: "exn \<Rightarrow> bool" where
  "isHttpException (HttpException m s) = True"
| "isHttpException (Error m) = False"


definition FORBIDDEN :: nat where "FORBIDDEN = 403"
definition NOT_FOUND :: nat where "NOT_FOUND = 404"
definition BAD_REQUEST :: nat where "BAD_REQUEST = 400"
definition INTERNAL_SERVER_ERROR :: nat where "INTERNAL_SERVER_ERROR = 500"
definition SERVICE_UNAVAILABLE :: nat where "SERVICE_UNAVAILABLE = 503"

subsection \<open>common/utils/retry.util.ts and fx/config/retry.config.ts\<close>

record RetryConfig =
  maxAttempts :: nat
  initialDelay :: nat
  maxDelay :: nat
  backoffFactor :: nat

definition RETRY_CONFIG :: RetryConfig where
  "RETRY_CONFIG = \<lparr> maxAttempts = 3, initialDelay = 1000, maxDelay = 5000, backoffFactor = 2 \<rparr>"

text \<open>
  \<^verbatim>\<open>retry(fn, config)\<close>; \<^verbatim>\<open>withRetry\<close> of fx/utils/retry.util.ts is the same loop
  with \<open>RETRY_CONFIG\<close> built in.
  The callback \<^verbatim>\<open>fn\<close> is an effect; it is modelled by the outcome of each of its
  calls, \<open>fn k\<close> being what the \<open>k\<close>-th call (counted from 1) does: \<open>Inl e\<close> when the
  promise rejects with \<open>e\<close>, \<open>Inr v\<close> when it resolves to \<open>v\<close>. The run is observed
  through its trace: which calls were made and which delays were slept, in order.
  \<^verbatim>\<open>lastError\<close> starts undefined, so the thrown value is an option.
\<close>

datatype retry_event = Attempt nat | Sleep nat

fun isAttempt :: "retry_event \<Rightarrow> bool" where
  "isAttempt (Attempt k) = True"
| "isAttempt (Sleep d) = False"

fun sleeps :: "retry_event list \<Rightarrow> nat list" where
  "sleeps [] = []"
| "sleeps (Attempt k # es) = sleeps es"
| "sleeps (Sleep d # es) = d # sleeps es"

function retry_loop ::
  "(nat \<Rightarrow> 'e + 'a) \<Rightarrow> RetryConfig \<Rightarrow> nat \<Rightarrow> nat \<Rightarrow> 'e option \<Rightarrow> retry_event list
     \<Rightarrow> ('e option + 'a) \<times> retry_event list" where
  "retry_loop fn config attempt delay lastError trace =
     (if attempt \<le> maxAttempts config then
        (case fn attempt of
           Inr v \<Rightarrow> (Inr v, trace @ [Attempt attempt])
         | Inl error \<Rightarrow>
             if attempt = maxAttempts config
             then (Inl (Some error), trace @ [Attempt attempt])
             else retry_loop fn config (attempt + 1)
                    (min (delay * backoffFactor config) (maxDelay config))
                    (Some error) (trace @ [Attempt attempt, Sleep delay]))
      else (Inl lastError, trace))"
  by pat_completeness auto
termination
  by (relation "measure (\<lambda>(fn, config, attempt, delay, lastError, trace).
        Suc (maxAttempts config) - attempt)") auto

declare retry_loop.simps [simp del]

definition retry :: "(nat \<Rightarrow> 'e + 'a) \<Rightarrow> RetryConfig \<Rightarrow> ('e option + 'a) \<times> retry_event list" where
  "retry fn config = retry_loop fn config 1 (initialDelay config) None []"

text \<open>The delay slept after the \<open>i\<close>-th failed attempt (from 0) under exponential backoff.\<close>

definition backoff :: "RetryConfig \<Rightarrow> nat \<Rightarrow> nat" where
  "backoff config i = min (initialDelay config * backoffFactor config ^ i) (maxDelay config)"

section \<open>Fallback rate table\<close>

subsection \<open>wallet/entities/wallet-balance.entity.ts: the currency catalogue\<close>

datatype Currency = NGN | USD | EUR | GBP

fun code :: "Currency \<Rightarrow> string" where
  "code NGN = ''NGN''"
| "code USD = ''USD''"
| "code EUR = ''EUR''"
| "code GBP = ''GBP''"

subsection \<open>Numbers that reach the rate validation\<close>

text \<open>
  A rate handed to the fallback table comes from an adapter, which computes
  \<^verbatim>\<open>1 / rate\<close> on unchecked response fields, so it may be \<^verbatim>\<open>NaN\<close> or infinite.
  The validation is written against exactly those values, hence they are part of the model
  here. Finite values are exact reals; there is no signed zero.
\<close>

datatype number = Finite real | NaN | PosInfinity | NegInfinity

fun isNaN :: "number \<Rightarrow> bool" where
  "isNaN NaN = True"
| "isNaN x = False"

fun isFinite :: "number \<Rightarrow> bool" where
  "isFinite (Finite r) = True"
| "isFinite x = False"

text \<open>The comparison \<^verbatim>\<open>a < b\<close> of JavaScript: false whenever an operand is NaN.\<close>

fun lt :: "number \<Rightarrow> number \<Rightarrow> bool" where
  "lt NaN y = False"
| "lt x NaN = False"
| "lt (Finite a) (Finite b) = (a < b)"
| "lt (Finite a) PosInfinity = True"
| "lt (Finite a) NegInfinity = False"
| "lt PosInfinity y = False"
| "lt NegInfinity NegInfinity = False"
| "lt NegInfinity y = True"

text \<open>The quotient \<^verbatim>\<open>1 / x\<close>.\<close>

fun reciprocal :: "number \<Rightarrow> number" where
  "reciprocal (Finite r) = (if r = 0 then PosInfinity else Finite (1 / r))"
| "reciprocal NaN = NaN"
| "reciprocal PosInfinity = Finite 0"
| "reciprocal NegInfinity = Finite 0"

subsection \<open>fx/config/fallback-rates.config.ts\<close>

record FallbackRate =
  rate :: number
  lastUpdated :: nat

type_synonym FallbackRates = "Currency \<rightharpoonup> (Currency \<rightharpoonup> FallbackRate)"

definition BASE_FALLBACK_RATES :: "Currency \<rightharpoonup> (Currency \<rightharpoonup> real)" where
  "BASE_FALLBACK_RATES =
     [NGN \<mapsto> [USD \<mapsto> 0.0021, EUR \<mapsto> 0.0019, GBP \<mapsto> 0.0016],
      USD \<mapsto> [NGN \<mapsto> 476.19, EUR \<mapsto> 0.92, GBP \<mapsto> 0.79],
      EUR \<mapsto> [NGN \<mapsto> 517.60, USD \<mapsto> 1.09, GBP \<mapsto> 0.86],
      GBP \<mapsto> [NGN \<mapsto> 602.41, USD \<mapsto> 1.27, EUR \<mapsto> 1.16]]"

text \<open>\<^verbatim>\<open>table[a]?.[b]\<close>: the entry of a nested object, undefined when either level is missing.\<close>

definition entry :: "('k \<rightharpoonup> ('k \<rightharpoonup> 'v)) \<Rightarrow> 'k \<Rightarrow> 'k \<Rightarrow> 'v option" where
  "entry table a b = (case table a of None \<Rightarrow> None | Some inner \<Rightarrow> inner b)"

definition initializeFallbackRates :: "nat \<Rightarrow> FallbackRates" where
  "initializeFallbackRates now =
     (\<lambda>fromCurrency. case BASE_FALLBACK_RATES fromCurrency of
        None \<Rightarrow> None
      | Some toCurrencies \<Rightarrow>
          Some (\<lambda>toCurrency. case toCurrencies toCurrency of
                  None \<Rightarrow> None
                | Some r \<Rightarrow> Some \<lparr> FallbackRate.rate = Finite r, lastUpdated = now \<rparr>))"

subsection \<open>fx/services/fallback-rates.service.ts\<close>

text \<open>
  The service's field \<^verbatim>\<open>fallbackRates\<close> is passed in and returned; \<^verbatim>\<open>new Date()\<close> is
  the parameter \<open>now\<close>. Calls of the logger do not touch the table and are left out.
\<close>

definition getRate :: "FallbackRates \<Rightarrow> Currency \<Rightarrow> Currency \<Rightarrow> number" where
  "getRate fallbackRates fromCurrency toCurrency =
     (case entry fallbackRates fromCurrency toCurrency of
        None \<Rightarrow>
          (case entry BASE_FALLBACK_RATES fromCurrency toCurrency of
             None \<Rightarrow> Finite 1
           | Some r \<Rightarrow> Finite r)
      | Some r \<Rightarrow> FallbackRate.rate r)"

definition isValidRate :: "number \<Rightarrow> bool" where
  "isValidRate r \<longleftrightarrow>
     \<not> isNaN r \<and> isFinite r \<and> lt (Finite 0) r \<and> lt r (Finite 1000000)"

text \<open>
  \<^verbatim>\<open>if (!table[a]) table[a] = {}; table[a][b] = v\<close>
\<close>

definition setEntry :: "FallbackRates \<Rightarrow> Currency \<Rightarrow> Currency \<Rightarrow> FallbackRate \<Rightarrow> FallbackRates" where
  "setEntry table a b v =
     (let table' = (if table a = None then table(a \<mapsto> Map.empty) else table)
      in case table' a of
           None \<Rightarrow> table'
         | Some inner \<Rightarrow> table'(a \<mapsto> inner(b \<mapsto> v)))"

definition updateRate ::
  "nat \<Rightarrow> FallbackRates \<Rightarrow> Currency \<Rightarrow> Currency \<Rightarrow> number \<Rightarrow> FallbackRates" where
  "updateRate now fallbackRates fromCurrency toCurrency newRate =
     (if \<not> isValidRate newRate then fallbackRates
      else
        let direct = setEntry fallbackRates fromCurrency toCurrency
                       \<lparr> FallbackRate.rate = newRate, lastUpdated = now \<rparr>;
            inverseRate = reciprocal newRate
        in setEntry direct toCurrency fromCurrency
             \<lparr> FallbackRate.rate = inverseRate, lastUpdated = now \<rparr>)"

subsection \<open>fx/interfaces/rate-source.interface.ts and the refresh cycle\<close>

text \<open>
  An adapter is an effect; within one cycle it is modelled by what its two methods do when
  called: reject with an exception (\<open>Inl\<close>) or resolve to a value (\<open>Inr\<close>).
\<close>

record RateSourceResponse =
  fromCurrency :: Currency
  toCurrency :: Currency
  rate :: number
  timestamp :: nat
  source :: string

record RateSource =
  name :: string
  isAvailable :: "exn + bool"
  getRates :: "exn + RateSourceResponse list"

fun applyRates :: "nat \<Rightarrow> RateSourceResponse list \<Rightarrow> FallbackRates \<Rightarrow> FallbackRates" where
  "applyRates now [] table = table"
| "applyRates now (r # rates) table =
     applyRates now rates
       (if isValidRate (RateSourceResponse.rate r)
        then updateRate now table (fromCurrency r) (toCurrency r) (RateSourceResponse.rate r)
        else table)"

fun fetchLoop ::
  "nat \<Rightarrow> RateSource list \<Rightarrow> FallbackRates \<Rightarrow> exn option \<Rightarrow> FallbackRates \<times> (exn + unit)" where
  "fetchLoop now [] table lastError =
     (table, Inl (case lastError of
                    None \<Rightarrow> Error ''All rate sources failed''
                  | Some e \<Rightarrow> e))"
| "fetchLoop now (s # sources) table lastError =
     (case isAvailable s of
        Inl error \<Rightarrow> fetchLoop now sources table (Some error)
      | Inr available \<Rightarrow>
          if \<not> available then fetchLoop now sources table lastError
          else (case getRates s of
                  Inl error \<Rightarrow> fetchLoop now sources table (Some error)
                | Inr rates \<Rightarrow> (applyRates now rates table, Inr ())))"

definition fetchLatestRates ::
  "nat \<Rightarrow> RateSource list \<Rightarrow> FallbackRates \<Rightarrow> FallbackRates \<times> (exn + unit)" where
  "fetchLatestRates now rateSources fallbackRates = fetchLoop now rateSources fallbackRates None"

text \<open>An adapter the cycle stops at: it reports itself available and its fetch resolves.\<close>

definition answers :: "RateSource \<Rightarrow> bool" where
  "answers s \<longleftrightarrow> isAvailable s = Inr True \<and> \<not> isl (getRates s)"

definition zeroRateSource :: RateSource where
  "zeroRateSource =
     \<lparr> name = ''Fixer API'', isAvailable = Inr True,
       getRates = Inr [\<lparr> fromCurrency = EUR, toCurrency = USD, rate = Finite 0,
                          timestamp = 0, source = ''Fixer API'' \<rparr>,
                       \<lparr> fromCurrency = USD, toCurrency = EUR, rate = PosInfinity,
                          timestamp = 0, source = ''Fixer API'' \<rparr>] \<rparr>"

section \<open>Live rates: fx.service.ts\<close>

record ExchangeRateResponse =
  rates :: "string \<rightharpoonup> real"
  base :: string
  timestamp :: nat








section \<open>Wallet ledger: wallet.service.ts\<close>

subsection \<open>Entities\<close>

text \<open>
  Of each entity the columns that the wallet service reads or writes are kept. The
  generated ids of balances and transactions, the creation and update times and the
  relations are left out.
\<close>

type_synonym user_id = string
type_synonym wallet_id = string

record User =
  isEmailVerified :: bool

record Wallet =
  id' :: wallet_id
  userId :: user_id

text \<open>
  A row of \<^verbatim>\<open>wallet_balances\<close> is identified by its wallet and currency, which are the key
  of the table below; the record holds the three amounts.
\<close>

record WalletBalance =
  balance :: real
  lockedBalance :: real
  availableBalance :: real

datatype TransactionType = FUNDING | CONVERSION | TRADE | TRANSFER

datatype TransactionStatus = PENDING | COMPLETED | FAILED | CANCELLED

record Transaction =
  userId :: user_id
  walletId :: wallet_id
  type :: TransactionType
  status :: TransactionStatus
  amount :: real
  fromCurrency :: Currency
  toCurrency :: Currency
  rate :: real
  convertedAmount :: real
  reference :: "string option"
  description :: string

record Database =
  users :: "user_id \<rightharpoonup> User"
  wallets :: "Wallet list"
  balances :: "wallet_id \<times> Currency \<rightharpoonup> WalletBalance"
  transactions :: "Transaction list"

subsection \<open>The query runner\<close>

text \<open>
  Every call that reaches the database may reject. Which calls do, and with what, is a
  parameter of an operation, as are the answer of the rate service and the two number
  formatters used in descriptions.
\<close>

datatype query =
    FindUser user_id
  | Connect
  | StartTransaction
  | FindWallet user_id
  | FindBalance wallet_id Currency
  | InsertBalance wallet_id Currency
  | SaveBalance wallet_id Currency
  | SaveTransaction
  | CommitTransaction

record Environment =
  dbFailure :: "query \<Rightarrow> exn option"
  fxGetRates :: "string \<Rightarrow> exn + ExchangeRateResponse"
  numberToString :: "real \<Rightarrow> string"
  toFixed8 :: "real \<Rightarrow> string"

text \<open>
  Between \<^verbatim>\<open>startTransaction\<close> and \<^verbatim>\<open>commitTransaction\<close> the query runner works on
  its own view of the database and holds the rows it has read with
  \<^verbatim>\<open>pessimistic_write\<close> or inserted; \<open>held\<close> lists them in the order of acquisition.
\<close>

datatype hold = WalletRow wallet_id | BalanceRow wallet_id Currency

record Session =
  store :: Database
  held :: "hold list"

type_synonym 'a action = "Session \<Rightarrow> (exn + 'a) \<times> Session"

definition andThen :: "'a action \<Rightarrow> ('a \<Rightarrow> 'b action) \<Rightarrow> 'b action" where
  "andThen m f = (\<lambda>s. case m s of (Inl e, s') \<Rightarrow> (Inl e, s') | (Inr a, s') \<Rightarrow> f a s')"

definition throw :: "exn \<Rightarrow> 'a action" where
  "throw e = (\<lambda>s. (Inl e, s))"

definition return :: "'a \<Rightarrow> 'a action" where
  "return a = (\<lambda>s. (Inr a, s))"

definition call :: "Environment \<Rightarrow> query \<Rightarrow> unit action" where
  "call env q = (case dbFailure env q of None \<Rightarrow> return () | Some e \<Rightarrow> throw e)"

text \<open>\<^verbatim>\<open>manager.findOne(Wallet, { where: { userId }, lock: { mode: 'pessimistic_write' } })\<close>\<close>

definition findWallet :: "Environment \<Rightarrow> user_id \<Rightarrow> Wallet option action" where
  "findWallet env u =
     andThen (call env (FindWallet u)) (\<lambda>_. \<lambda>s.
       case find (\<lambda>w. Wallet.userId w = u) (wallets (store s)) of
         None \<Rightarrow> (Inr None, s)
       | Some w \<Rightarrow> (Inr (Some w), s\<lparr> held := held s @ [WalletRow (id' w)] \<rparr>))"

definition getOrCreateBalance ::
  "Environment \<Rightarrow> wallet_id \<Rightarrow> Currency \<Rightarrow> WalletBalance action" where
  "getOrCreateBalance env w currency =
     andThen (call env (FindBalance w currency)) (\<lambda>_. \<lambda>s.
       case balances (store s) (w, currency) of
         Some b \<Rightarrow> (Inr b, s\<lparr> held := held s @ [BalanceRow w currency] \<rparr>)
       | None \<Rightarrow>
           andThen (call env (InsertBalance w currency)) (\<lambda>_. \<lambda>s.
             let b = \<lparr> balance = 0, lockedBalance = 0, availableBalance = 0 \<rparr>
             in (Inr b,
                 s\<lparr> store := (store s)\<lparr> balances := (balances (store s))((w, currency) \<mapsto> b) \<rparr>,
                    held := held s @ [BalanceRow w currency] \<rparr>)) s)"

text \<open>\<^verbatim>\<open>manager.save(WalletBalance, [...])\<close>: the rows are written one after the other.\<close>

fun saveBalances ::
  "Environment \<Rightarrow> ((wallet_id \<times> Currency) \<times> WalletBalance) list \<Rightarrow> unit action" where
  "saveBalances env [] = return ()"
| "saveBalances env ((k, b) # rows) =
     andThen (call env (SaveBalance (fst k) (snd k))) (\<lambda>_. \<lambda>s.
       saveBalances env rows
         (s\<lparr> store := (store s)\<lparr> balances := (balances (store s))(k \<mapsto> b) \<rparr> \<rparr>))"

definition saveTransaction :: "Environment \<Rightarrow> Transaction \<Rightarrow> Transaction action" where
  "saveTransaction env t =
     andThen (call env SaveTransaction) (\<lambda>_. \<lambda>s.
       (Inr t, s\<lparr> store := (store s)\<lparr> transactions := transactions (store s) @ [t] \<rparr> \<rparr>))"

text \<open>
  What the caller of an operation can observe: the database as persisted afterwards, the
  holds the operation acquired, and the transaction it returned or the exception it threw.
\<close>

record Outcome =
  persisted :: Database
  acquired :: "hold list"
  result :: "exn + Transaction"

definition rejected :: "Database \<Rightarrow> exn \<Rightarrow> Outcome" where
  "rejected db e = \<lparr> persisted = db, acquired = [], result = Inl e \<rparr>"

text \<open>
  The frame shared by the three operations:
  \<^verbatim>\<open>connect; startTransaction; try { body; commitTransaction } catch { rollbackTransaction; ... }\<close>.
  A rollback leaves the database as it was when the transaction started; an HttpException
  is rethrown as it is and anything else becomes a 500 with the operation's message.
\<close>

definition inTransaction ::
  "Environment \<Rightarrow> Database \<Rightarrow> string \<Rightarrow> Transaction action \<Rightarrow> Outcome" where
  "inTransaction env db failureMessage body =
     (case dbFailure env Connect of
        Some e \<Rightarrow> rejected db e
      | None \<Rightarrow>
     (case dbFailure env StartTransaction of
        Some e \<Rightarrow> rejected db e
      | None \<Rightarrow>
     (case andThen body (\<lambda>saved. andThen (call env CommitTransaction) (\<lambda>_. return saved))
             \<lparr> store = db, held = [] \<rparr> of
        (Inr saved, s) \<Rightarrow> \<lparr> persisted = store s, acquired = held s, result = Inr saved \<rparr>
      | (Inl err, s) \<Rightarrow>
          \<lparr> persisted = db, acquired = held s,
            result = Inl (if isHttpException err then err
                          else HttpException failureMessage INTERNAL_SERVER_ERROR) \<rparr>)))"

definition checkUserVerified :: "Environment \<Rightarrow> Database \<Rightarrow> user_id \<Rightarrow> exn option" where
  "checkUserVerified env db u =
     (case dbFailure env (FindUser u) of
        Some e \<Rightarrow> Some e
      | None \<Rightarrow>
          (case users db u of
             None \<Rightarrow> Some (HttpException ''User not verified or not found'' FORBIDDEN)
           | Some user \<Rightarrow>
               if \<not> isEmailVerified user
               then Some (HttpException ''User not verified or not found'' FORBIDDEN)
               else None))"

subsection \<open>The three operations\<close>

text \<open>
  A parameter or local variable that shares its name with a field of an entity carries a
  prime.
\<close>

text \<open>
  Each operation is written in two parts: the statements inside its \<^verbatim>\<open>try\<close> block, and
  the operation itself, which runs the checks that come before the transaction and then
  that block inside the frame above.
\<close>

definition fundWalletTry ::
  "Environment \<Rightarrow> user_id \<Rightarrow> real \<Rightarrow> Currency \<Rightarrow> string \<Rightarrow> Transaction action" where
  "fundWalletTry env userId' amount' currency reference' =
     andThen (findWallet env userId') (\<lambda>found.
       case found of
         None \<Rightarrow> throw (HttpException ''Wallet not found'' NOT_FOUND)
       | Some wallet \<Rightarrow>
           andThen (getOrCreateBalance env (id' wallet) currency) (\<lambda>balance'.
           andThen (saveBalances env
              [((id' wallet, currency),
                balance'\<lparr> balance := balance balance' + amount',
                          availableBalance := availableBalance balance' + amount' \<rparr>)])
             (\<lambda>_.
           saveTransaction env
             \<lparr> userId = userId', walletId = id' wallet, type = FUNDING,
               status = COMPLETED, amount = amount', fromCurrency = currency,
               toCurrency = currency, rate = 1, convertedAmount = amount',
               reference = Some reference',
               description = ''Wallet funded with '' @ numberToString env amount'
                               @ '' '' @ code currency \<rparr>)))"

definition fundWallet ::
  "Environment \<Rightarrow> Database \<Rightarrow> user_id \<Rightarrow> real \<Rightarrow> Currency \<Rightarrow> string \<Rightarrow> Outcome" where
  "fundWallet env db userId' amount' currency reference' =
     (case checkUserVerified env db userId' of
        Some e \<Rightarrow> rejected db e
      | None \<Rightarrow>
          if amount' \<le> 0
          then rejected db (HttpException ''Funding amount must be positive'' BAD_REQUEST)
          else inTransaction env db ''Wallet funding failed''
                 (fundWalletTry env userId' amount' currency reference'))"

definition transferFundsTry ::
  "Environment \<Rightarrow> user_id \<Rightarrow> user_id \<Rightarrow> real \<Rightarrow> Currency \<Rightarrow> string \<Rightarrow> Transaction action" where
  "transferFundsTry env fromUserId toUserId amount' currency description' =
     andThen (findWallet env fromUserId) (\<lambda>foundFrom.
     andThen (findWallet env toUserId) (\<lambda>foundTo.
       case (foundFrom, foundTo) of
         (Some fromWallet, Some toWallet) \<Rightarrow>
           andThen (getOrCreateBalance env (id' fromWallet) currency) (\<lambda>fromBalance.
           andThen (getOrCreateBalance env (id' toWallet) currency) (\<lambda>toBalance.
             if availableBalance fromBalance < amount'
             then throw (HttpException ''Insufficient available balance'' BAD_REQUEST)
             else
               andThen (saveBalances env
                  [((id' fromWallet, currency),
                    fromBalance\<lparr> balance := balance fromBalance - amount',
                                 availableBalance := availableBalance fromBalance - amount' \<rparr>),
                   ((id' toWallet, currency),
                    toBalance\<lparr> balance := balance toBalance + amount',
                               availableBalance := availableBalance toBalance + amount' \<rparr>)])
                 (\<lambda>_.
               saveTransaction env
                 \<lparr> userId = fromUserId, walletId = id' fromWallet, type = TRANSFER,
                   status = COMPLETED, amount = amount', fromCurrency = currency,
                   toCurrency = currency, rate = 1, convertedAmount = amount',
                   reference = None,
                   description =
                     (if description' = [] then ''Transfer to user '' @ toUserId
                      else description') \<rparr>)))
       | _ \<Rightarrow> throw (HttpException ''Sender or receiver wallet not found'' NOT_FOUND)))"

definition transferFunds ::
  "Environment \<Rightarrow> Database \<Rightarrow> user_id \<Rightarrow> user_id \<Rightarrow> real \<Rightarrow> Currency \<Rightarrow> string \<Rightarrow> Outcome" where
  "transferFunds env db fromUserId toUserId amount' currency description' =
     (case checkUserVerified env db fromUserId of
        Some e \<Rightarrow> rejected db e
      | None \<Rightarrow>
          if fromUserId = toUserId
          then rejected db (HttpException ''Cannot transfer funds to the same user'' BAD_REQUEST)
          else if amount' \<le> 0
          then rejected db (HttpException ''Transfer amount must be positive'' BAD_REQUEST)
          else inTransaction env db ''Fund transfer failed''
                 (transferFundsTry env fromUserId toUserId amount' currency description'))"

definition rateNotAvailable :: "Currency \<Rightarrow> Currency \<Rightarrow> exn" where
  "rateNotAvailable fromCurrency' toCurrency' =
     HttpException
       (''Exchange rate not available for '' @ code fromCurrency' @ '' to '' @ code toCurrency')
       SERVICE_UNAVAILABLE"

definition executeTradeTry ::
  "Environment \<Rightarrow> user_id \<Rightarrow> Currency \<Rightarrow> Currency \<Rightarrow> real \<Rightarrow> Transaction action" where
  "executeTradeTry env userId' fromCurrency' toCurrency' amount' =
     andThen (findWallet env userId') (\<lambda>found.
       case found of
         None \<Rightarrow> throw (HttpException ''Wallet not found'' NOT_FOUND)
       | Some wallet \<Rightarrow>
           (case fxGetRates env (code fromCurrency') of
              Inl e \<Rightarrow> throw e
            | Inr ratesData \<Rightarrow>
                (case rates ratesData (code toCurrency') of
                   None \<Rightarrow> throw (rateNotAvailable fromCurrency' toCurrency')
                 | Some rate' \<Rightarrow>
                     if rate' = 0 then throw (rateNotAvailable fromCurrency' toCurrency')
                     else
           andThen (getOrCreateBalance env (id' wallet) fromCurrency') (\<lambda>fromBalance.
           andThen (getOrCreateBalance env (id' wallet) toCurrency') (\<lambda>toBalance.
             if availableBalance fromBalance < amount'
             then throw (HttpException
                    (''Insufficient '' @ code fromCurrency' @ '' balance'') BAD_REQUEST)
             else
               andThen (saveBalances env
                  [((id' wallet, fromCurrency'),
                    fromBalance\<lparr> balance := balance fromBalance - amount',
                                 availableBalance := availableBalance fromBalance - amount' \<rparr>),
                   ((id' wallet, toCurrency'),
                    toBalance\<lparr> balance := balance toBalance + amount' * rate',
                               availableBalance :=
                                 availableBalance toBalance + amount' * rate' \<rparr>)])
                 (\<lambda>_.
               saveTransaction env
                 \<lparr> userId = userId', walletId = id' wallet, type = TRADE,
                   status = COMPLETED, amount = amount',
                   fromCurrency = fromCurrency', toCurrency = toCurrency',
                   rate = rate', convertedAmount = amount' * rate',
                   reference = None,
                   description =
                     ''Trade '' @ numberToString env amount' @ '' ''
                       @ code fromCurrency' @ '' for '' @ toFixed8 env (amount' * rate')
                       @ '' '' @ code toCurrency' @ '' at rate ''
                       @ numberToString env rate' \<rparr>))))))"

definition executeTrade ::
  "Environment \<Rightarrow> Database \<Rightarrow> user_id \<Rightarrow> Currency \<Rightarrow> Currency \<Rightarrow> real \<Rightarrow> Outcome" where
  "executeTrade env db userId' fromCurrency' toCurrency' amount' =
     (case checkUserVerified env db userId' of
        Some e \<Rightarrow> rejected db e
      | None \<Rightarrow>
          if fromCurrency' = toCurrency'
          then rejected db (HttpException ''Cannot trade the same currency'' BAD_REQUEST)
          else if amount' \<le> 0
          then rejected db (HttpException ''Trade amount must be positive'' BAD_REQUEST)
          else inTransaction env db ''Trade execution failed''
                 (executeTradeTry env userId' fromCurrency' toCurrency' amount'))"

text \<open>A request to the ledger, and its execution.\<close>

datatype operation =
    Fund user_id real Currency string
  | Transfer user_id user_id real Currency string
  | Trade user_id Currency Currency real

fun perform :: "Environment \<Rightarrow> Database \<Rightarrow> operation \<Rightarrow> Outcome" where
  "perform env db (Fund u a c r) = fundWallet env db u a c r"
| "perform env db (Transfer u v a c d) = transferFunds env db u v a c d"
| "perform env db (Trade u c d a) = executeTrade env db u c d a"

subsection \<open>Reading the balances\<close>

text \<open>
  A balance that has no row yet is created with all three amounts zero on first reference,
  so a missing row reads as the zero balance.
\<close>

definition zeroBalance :: WalletBalance where
  "zeroBalance = \<lparr> balance = 0, lockedBalance = 0, availableBalance = 0 \<rparr>"

definition balanceAt :: "Database \<Rightarrow> wallet_id \<times> Currency \<Rightarrow> WalletBalance" where
  "balanceAt db k = (case balances db k of None \<Rightarrow> zeroBalance | Some b \<Rightarrow> b)"

definition consistent :: "WalletBalance \<Rightarrow> bool" where
  "consistent b \<longleftrightarrow>
     balance b = lockedBalance b + availableBalance b \<and> 0 \<le> availableBalance b"

definition credit :: "real \<Rightarrow> WalletBalance \<Rightarrow> WalletBalance" where
  "credit x b = b\<lparr> balance := balance b + x, availableBalance := availableBalance b + x \<rparr>"


subsection \<open>A small database to run the operations on\<close>

definition exampleDb :: Database where
  "exampleDb =
     \<lparr> users = [''u1'' \<mapsto> \<lparr> isEmailVerified = True \<rparr>,
                ''u2'' \<mapsto> \<lparr> isEmailVerified = True \<rparr>,
                ''u3'' \<mapsto> \<lparr> isEmailVerified = False \<rparr>],
       wallets = [\<lparr> id' = ''w1'', Wallet.userId = ''u1'' \<rparr>,
                  \<lparr> id' = ''w2'', Wallet.userId = ''u2'' \<rparr>,
                  \<lparr> id' = ''w3'', Wallet.userId = ''u3'' \<rparr>],
       balances = [(''w1'', USD) \<mapsto>
                     \<lparr> balance = 1000, lockedBalance = 0, availableBalance = 1000 \<rparr>,
                   (''w1'', EUR) \<mapsto>
                     \<lparr> balance = 20, lockedBalance = 0, availableBalance = 20 \<rparr>,
                   (''w2'', USD) \<mapsto>
                     \<lparr> balance = 50, lockedBalance = 0, availableBalance = 50 \<rparr>,
                   (''w3'', USD) \<mapsto>
                     \<lparr> balance = 500, lockedBalance = 0, availableBalance = 500 \<rparr>],
       transactions = [] \<rparr>"

definition exampleEnv ::
  "(query \<Rightarrow> exn option) \<Rightarrow> (string \<Rightarrow> exn + ExchangeRateResponse) \<Rightarrow> Environment" where
  "exampleEnv failures fx =
     \<lparr> dbFailure = failures, fxGetRates = fx,
       numberToString = (\<lambda>x. ''#''), toFixed8 = (\<lambda>x. ''#'') \<rparr>"

text \<open>A rate service that answers every request with one rate for EUR.\<close>

definition quoting :: "real \<Rightarrow> string \<Rightarrow> exn + ExchangeRateResponse" where
  "quoting r b = Inr \<lparr> rates = [''EUR'' \<mapsto> r], base = b, ExchangeRateResponse.timestamp = 0 \<rparr>"


subsection \<open>The holds of an operation, in the order of its statements\<close>

text \<open>
  \<^verbatim>\<open>transferFunds\<close> locks the sender's wallet row and the receiver's wallet row, each if
  it exists, and then, when both exist, the sender's balance and the receiver's balance.
  \<^verbatim>\<open>executeTrade\<close> locks the owner's wallet row and then the balance in the source
  currency and the balance in the target currency.
\<close>

definition transferHolds :: "Database \<Rightarrow> user_id \<Rightarrow> user_id \<Rightarrow> Currency \<Rightarrow> hold list" where
  "transferHolds db f t c =
     (case find (\<lambda>w. Wallet.userId w = f) (wallets db) of
        None \<Rightarrow> (case find (\<lambda>w. Wallet.userId w = t) (wallets db) of
                   None \<Rightarrow> [] | Some tw \<Rightarrow> [WalletRow (id' tw)])
      | Some fw \<Rightarrow>
          (case find (\<lambda>w. Wallet.userId w = t) (wallets db) of
             None \<Rightarrow> [WalletRow (id' fw)]
           | Some tw \<Rightarrow> [WalletRow (id' fw), WalletRow (id' tw),
                         BalanceRow (id' fw) c, BalanceRow (id' tw) c]))"

definition tradeHolds :: "Database \<Rightarrow> user_id \<Rightarrow> Currency \<Rightarrow> Currency \<Rightarrow> hold list" where
  "tradeHolds db u fc tc =
     (case find (\<lambda>w. Wallet.userId w = u) (wallets db) of
        None \<Rightarrow> []
      | Some w \<Rightarrow> [WalletRow (id' w), BalanceRow (id' w) fc, BalanceRow (id' w) tc])"

subsection \<open>The order of holds that the specification asks for\<close>

text \<open>
  The specification wants the holds of a transfer taken with the lower owner id first and
  those of a trade in alphabetical order of the currency code. These two functions say,
  in the specification's words, in which order the balance rows would then be held; they
  are compared with what the operations acquire.
\<close>

definition specifiedTransferHolds ::
  "Database \<Rightarrow> user_id \<Rightarrow> user_id \<Rightarrow> Currency \<Rightarrow> hold list" where
  "specifiedTransferHolds db fromUserId toUserId currency =
     (case (find (\<lambda>w. Wallet.userId w = min fromUserId toUserId) (wallets db),
            find (\<lambda>w. Wallet.userId w = max fromUserId toUserId) (wallets db)) of
        (Some lower, Some higher) \<Rightarrow>
          [BalanceRow (id' lower) currency, BalanceRow (id' higher) currency]
      | _ \<Rightarrow> [])"

definition specifiedTradeHolds :: "wallet_id \<Rightarrow> Currency \<Rightarrow> Currency \<Rightarrow> hold list" where
  "specifiedTradeHolds w fromCurrency' toCurrency' =
     map (BalanceRow w)
       (if code fromCurrency' \<le> code toCurrency' then [fromCurrency', toCurrency']
        else [toCurrency', fromCurrency'])"

fun isBalanceRow :: "hold \<Rightarrow> bool" where
  "isBalanceRow (BalanceRow w c) = True"
| "isBalanceRow (WalletRow w) = False"

section \<open>Retry policy\<close>

lemma retry_RETRY_CONFIG:
  "retry fn RETRY_CONFIG =
     (case fn 1 of Inr v \<Rightarrow> (Inr v, [Attempt 1])
      | Inl e1 \<Rightarrow>
        (case fn 2 of Inr v \<Rightarrow> (Inr v, [Attempt 1, Sleep 1000, Attempt 2])
         | Inl e2 \<Rightarrow>
           (case fn 3 of
              Inr v \<Rightarrow> (Inr v, [Attempt 1, Sleep 1000, Attempt 2, Sleep 2000, Attempt 3])
            | Inl e3 \<Rightarrow>
                (Inl (Some e3), [Attempt 1, Sleep 1000, Attempt 2, Sleep 2000, Attempt 3]))))"
proof -
  have cfg: "maxAttempts RETRY_CONFIG = 3" "backoffFactor RETRY_CONFIG = 2"
    "maxDelay RETRY_CONFIG = 5000" "initialDelay RETRY_CONFIG = 1000"
    by (simp_all add: RETRY_CONFIG_def)
  have third: "retry_loop fn RETRY_CONFIG 3 d le tr =
      (case fn 3 of Inr v \<Rightarrow> (Inr v, tr @ [Attempt 3])
       | Inl e \<Rightarrow> (Inl (Some e), tr @ [Attempt 3]))" for d le tr
    by (subst retry_loop.simps) (simp add: cfg split: sum.split)
  have second: "retry_loop fn RETRY_CONFIG 2 d le tr =
      (case fn 2 of Inr v \<Rightarrow> (Inr v, tr @ [Attempt 2])
       | Inl e \<Rightarrow> retry_loop fn RETRY_CONFIG 3 (min (d * 2) 5000) (Some e)
                    (tr @ [Attempt 2, Sleep d]))" for d le tr
    by (subst retry_loop.simps) (simp add: cfg split: sum.split)
  have first: "retry_loop fn RETRY_CONFIG 1 d le tr =
      (case fn 1 of Inr v \<Rightarrow> (Inr v, tr @ [Attempt 1])
       | Inl e \<Rightarrow> retry_loop fn RETRY_CONFIG 2 (min (d * 2) 5000) (Some e)
                    (tr @ [Attempt 1, Sleep d]))" for d le tr
    by (subst retry_loop.simps) (simp add: cfg del: One_nat_def split: sum.split)
  show ?thesis
    unfolding retry_def cfg first
    by (cases "fn 1"; cases "fn 2"; cases "fn 3") (simp_all add: second third)
qed

text \<open>
  C9. Under \<open>RETRY_CONFIG\<close> the operation is called at most 3 times, the calls are numbered
  consecutively from 1, every delay slept is the exponential backoff from 1000 ms with
  factor 2 capped at 5000 ms, and an operation that fails twice and then succeeds returns
  the successful value after sleeping 1000 ms and 2000 ms, a total wait between 1 s and 3 s.
\<close>

theorem retry_policy:
  "length (filter isAttempt (snd (retry fn RETRY_CONFIG))) \<le> 3
   \<and> (\<forall>i < length (sleeps (snd (retry fn RETRY_CONFIG))).
         sleeps (snd (retry fn RETRY_CONFIG)) ! i = backoff RETRY_CONFIG i)
   \<and> (\<forall>e1 e2 v. fn 1 = Inl e1 \<and> fn 2 = Inl e2 \<and> fn 3 = Inr v \<longrightarrow>
         fst (retry fn RETRY_CONFIG) = Inr v
         \<and> sleeps (snd (retry fn RETRY_CONFIG)) = [1000, 2000]
         \<and> 1000 \<le> sum_list (sleeps (snd (retry fn RETRY_CONFIG)))
         \<and> sum_list (sleeps (snd (retry fn RETRY_CONFIG))) \<le> 1000 + 2000)"
proof -
  have b: "backoff RETRY_CONFIG 0 = 1000" "backoff RETRY_CONFIG (Suc 0) = 2000"
    by (simp_all add: backoff_def RETRY_CONFIG_def)
  have lt2: "\<And>i P. (\<forall>i < Suc (Suc 0). P i) = (P 0 \<and> P (Suc 0))"
    by (auto simp: less_Suc_eq)
  show ?thesis
    by (cases "fn 1"; cases "fn 2"; cases "fn 3")
       (simp_all add: retry_RETRY_CONFIG b lt2)
qed

theorem retry_policy_witness:
  "fst (retry (\<lambda>k. if k < 3 then Inl ''timeout'' else Inr (42::nat)) RETRY_CONFIG) = Inr 42
   \<and> sleeps (snd (retry (\<lambda>k. if k < 3 then Inl ''timeout'' else Inr (42::nat)) RETRY_CONFIG))
       = [1000, 2000]"
  using retry_policy [of "\<lambda>k. if k < 3 then Inl ''timeout'' else Inr (42::nat)"]
  by simp

section \<open>Fallback rate table: reads and updates\<close>


lemma entry_setEntry:
  "entry (setEntry t a b v) c d = (if c = a \<and> d = b then Some v else entry t c d)"
  by (auto simp: entry_def setEntry_def Let_def split: option.splits)

text \<open>
  C10. \<open>getRate\<close> has no failing branch: it returns the stored rate of a pair that is in
  the table, the baseline constant of a pair that is only in \<open>BASE_FALLBACK_RATES\<close>, and 1
  for a pair in neither; no pair of a currency with itself is in the baseline constants.
\<close>

theorem getRate_total:
  "(\<forall>r. entry fallbackRates a b = Some r \<longrightarrow> getRate fallbackRates a b = FallbackRate.rate r)
   \<and> (\<forall>x. entry fallbackRates a b = None \<and> entry BASE_FALLBACK_RATES a b = Some x
          \<longrightarrow> getRate fallbackRates a b = Finite x)
   \<and> (entry fallbackRates a b = None \<and> entry BASE_FALLBACK_RATES a b = None
          \<longrightarrow> getRate fallbackRates a b = Finite 1)
   \<and> entry BASE_FALLBACK_RATES a a = None"
  by (cases a) (simp_all add: getRate_def entry_def BASE_FALLBACK_RATES_def)

theorem getRate_total_witness:
  "getRate (initializeFallbackRates 0) USD EUR = Finite 0.92
   \<and> getRate Map.empty USD EUR = Finite 0.92
   \<and> getRate Map.empty USD USD = Finite 1"
  using getRate_total [of "initializeFallbackRates 0" USD EUR]
        getRate_total [of Map.empty USD EUR]
        getRate_total [of Map.empty USD USD]
  by (simp add: entry_def initializeFallbackRates_def BASE_FALLBACK_RATES_def)



section \<open>The refresh cycle\<close>

lemma applyRates_filter:
  "applyRates now (filter (\<lambda>r. isValidRate (RateSourceResponse.rate r)) rs) t
     = applyRates now rs t"
  by (induction rs arbitrary: t) simp_all

lemma fetchLoop_find:
  "(find answers sources = None \<longrightarrow>
       fst (fetchLoop now sources t le) = t \<and> isl (snd (fetchLoop now sources t le)))
   \<and> (\<forall>s. find answers sources = Some s \<longrightarrow>
         (\<exists>rs. getRates s = Inr rs \<and>
            fetchLoop now sources t le = (applyRates now rs t, Inr ())))"
proof (induction sources arbitrary: le)
  case Nil
  then show ?case by simp
next
  case (Cons s sources)
  show ?case
  proof (cases "answers s")
    case True
    then obtain rs where "isAvailable s = Inr True" "getRates s = Inr rs"
      by (cases "getRates s") (auto simp: answers_def)
    then show ?thesis using True by simp
  next
    case False
    then show ?thesis using Cons.IH
      by (auto simp: answers_def split: sum.splits)
  qed
qed

text \<open>
  C8, as the code has it. The cycle goes through the adapters in list order and passes over
  one that reports itself unavailable or rejects. It stops at the first adapter whose fetch
  resolves, and the table afterwards is the old table with exactly the valid rates of that
  one list applied, the invalid ones skipped. If no adapter's fetch resolves, the cycle
  fails and the table is the old table.
\<close>

theorem fetchLatestRates_first_answer:
  "(find answers rateSources = None \<longrightarrow>
       fst (fetchLatestRates now rateSources fallbackRates) = fallbackRates
       \<and> isl (snd (fetchLatestRates now rateSources fallbackRates)))
   \<and> (\<forall>s. find answers rateSources = Some s \<longrightarrow>
         (\<exists>rs. getRates s = Inr rs \<and>
            fetchLatestRates now rateSources fallbackRates =
              (applyRates now (filter (\<lambda>r. isValidRate (RateSourceResponse.rate r)) rs)
                 fallbackRates, Inr ())))"
  unfolding fetchLatestRates_def applyRates_filter by (rule fetchLoop_find)

theorem fetchLatestRates_first_answer_witness:
  "snd (fetchLatestRates 1
          [\<lparr> name = ''Exchange Rates API'', isAvailable = Inr False,
              getRates = Inl (Error ''unused'') \<rparr>]
          (initializeFallbackRates 0)) = Inl (Error ''All rate sources failed'')
   \<and> getRate (fst (fetchLatestRates 1
          [\<lparr> name = ''Exchange Rates API'', isAvailable = Inr False,
              getRates = Inl (Error ''unused'') \<rparr>,
           \<lparr> name = ''Fixer API'', isAvailable = Inr True,
              getRates = Inr [\<lparr> RateSourceResponse.fromCurrency = EUR,
                               RateSourceResponse.toCurrency = USD,
                               RateSourceResponse.rate = Finite 2,
                               RateSourceResponse.timestamp = 0,
                               source = ''Fixer API'' \<rparr>] \<rparr>]
          (initializeFallbackRates 0))) USD EUR = Finite (1 / 2)"
  using fetchLatestRates_first_answer [of
          "[\<lparr> name = ''Exchange Rates API'', isAvailable = Inr False,
              getRates = Inl (Error ''unused'') \<rparr>]" 1 "initializeFallbackRates 0"]
        fetchLatestRates_first_answer [of
          "[\<lparr> name = ''Exchange Rates API'', isAvailable = Inr False,
              getRates = Inl (Error ''unused'') \<rparr>,
           \<lparr> name = ''Fixer API'', isAvailable = Inr True,
              getRates = Inr [\<lparr> RateSourceResponse.fromCurrency = EUR,
                               RateSourceResponse.toCurrency = USD,
                               RateSourceResponse.rate = Finite 2,
                               RateSourceResponse.timestamp = 0,
                               source = ''Fixer API'' \<rparr>] \<rparr>]"
          1 "initializeFallbackRates 0"]
  by (simp add: answers_def fetchLatestRates_def isValidRate_def updateRate_def getRate_def
        entry_setEntry Let_def)

text \<open>
  C8, as the claim states it, fails: the only adapter answers with a zero rate and the
  infinite inverse computed from it, both invalid, and the cycle ends without an error.
\<close>

theorem fetchLatestRates_invalid_data_counterexample:
  "\<not> isValidRate (Finite 0) \<and> \<not> isValidRate PosInfinity
   \<and> snd (fetchLatestRates 1 [zeroRateSource] (initializeFallbackRates 0)) = Inr ()"
  by (simp add: fetchLatestRates_def zeroRateSource_def isValidRate_def)

section \<open>Wallet ledger: what a completed step did\<close>





lemma andThen_Inr:
  "(andThen m f s = (Inr b, s'')) = (\<exists>a s'. m s = (Inr a, s') \<and> f a s' = (Inr b, s''))"
  by (auto simp: andThen_def split: prod.splits sum.splits)

lemma call_Inr: "(call env q s = (Inr x, s')) = (dbFailure env q = None \<and> s' = s)"
  by (auto simp: call_def throw_def return_def split: option.splits)

lemma throw_Inr: "(throw e s = (Inr x, s')) = False"
  by (simp add: throw_def)

lemma return_Inr: "(return a s = (Inr x, s')) = (x = a \<and> s' = s)"
  by (auto simp: return_def)

lemma findWallet_Inr:
  "findWallet env u s = (Inr r, s') \<Longrightarrow>
     r = find (\<lambda>w. Wallet.userId w = u) (wallets (store s)) \<and> store s' = store s
     \<and> held s' = held s @ (case r of None \<Rightarrow> [] | Some w \<Rightarrow> [WalletRow (id' w)])"
  by (auto simp: findWallet_def andThen_Inr call_Inr split: option.splits)

lemma getOrCreateBalance_Inr:
  "getOrCreateBalance env w c s = (Inr b, s') \<Longrightarrow>
     b = balanceAt (store s) (w, c)
     \<and> balances (store s') = (balances (store s))((w, c) \<mapsto> b)
     \<and> users (store s') = users (store s) \<and> wallets (store s') = wallets (store s)
     \<and> transactions (store s') = transactions (store s)
     \<and> held s' = held s @ [BalanceRow w c]"
  by (auto simp: getOrCreateBalance_def andThen_Inr call_Inr balanceAt_def zeroBalance_def Let_def
      split: option.splits)

lemma saveBalances_Inr:
  "saveBalances env rows s = (Inr x, s') \<Longrightarrow>
     balances (store s') = fold (\<lambda>(k, b) m. m(k \<mapsto> b)) rows (balances (store s))
     \<and> users (store s') = users (store s) \<and> wallets (store s') = wallets (store s)
     \<and> transactions (store s') = transactions (store s)
     \<and> held s' = held s"
proof (induction rows arbitrary: s)
  case Nil
  then show ?case by (simp add: return_Inr)
next
  case (Cons row rows)
  obtain k b where row: "row = (k, b)" by (cases row)
  from Cons.prems have
    "saveBalances env rows (s\<lparr> store := (store s)\<lparr> balances := (balances (store s))(k \<mapsto> b) \<rparr> \<rparr>)
       = (Inr x, s')"
    by (auto simp: row andThen_Inr call_Inr)
  from Cons.IH [OF this] show ?case by (simp add: row)
qed

lemma saveTransaction_Inr:
  "saveTransaction env t s = (Inr t', s') \<Longrightarrow>
     t' = t \<and> transactions (store s') = transactions (store s) @ [t]
     \<and> balances (store s') = balances (store s)
     \<and> users (store s') = users (store s) \<and> wallets (store s') = wallets (store s)
     \<and> held s' = held s"
  by (auto simp: saveTransaction_def andThen_Inr call_Inr)

lemma inTransaction_Inr:
  "result (inTransaction env db msg body) = Inr tx \<Longrightarrow>
     \<exists>s. body \<lparr> store = db, held = [] \<rparr> = (Inr tx, s)
       \<and> persisted (inTransaction env db msg body) = store s
       \<and> acquired (inTransaction env db msg body) = held s"
  by (auto simp: inTransaction_def rejected_def andThen_def call_def throw_def return_def
      split: option.splits prod.splits sum.splits)


lemma transferFundsTry_Inr:
  assumes "transferFundsTry env f t a c d s = (Inr tx, s')"
  shows "\<exists>fw tw. find (\<lambda>w. Wallet.userId w = f) (wallets (store s)) = Some fw
     \<and> find (\<lambda>w. Wallet.userId w = t) (wallets (store s)) = Some tw
     \<and> a \<le> availableBalance (balanceAt (store s) (id' fw, c))
     \<and> held s' = held s @ [WalletRow (id' fw), WalletRow (id' tw),
                              BalanceRow (id' fw) c, BalanceRow (id' tw) c]
     \<and> (\<forall>k. balances (store s') k =
           (if k = (id' tw, c) then Some (credit a (balanceAt (store s) k))
            else if k = (id' fw, c) then Some (credit (- a) (balanceAt (store s) k))
            else balances (store s) k))
     \<and> transactions (store s') = transactions (store s) @ [tx]
     \<and> users (store s') = users (store s) \<and> wallets (store s') = wallets (store s)
     \<and> Transaction.userId tx = f \<and> walletId tx = id' fw \<and> type tx = TRANSFER
     \<and> status tx = COMPLETED \<and> amount tx = a \<and> Transaction.rate tx = 1
     \<and> convertedAmount tx = a \<and> Transaction.fromCurrency tx = c
     \<and> Transaction.toCurrency tx = c"
proof -
  from assms obtain foundFrom s1 foundTo s2 where
    w1: "findWallet env f s = (Inr foundFrom, s1)" and
    w2: "findWallet env t s1 = (Inr foundTo, s2)" and
    rest: "(case (foundFrom, foundTo) of
         (Some fromWallet, Some toWallet) \<Rightarrow>
           andThen (getOrCreateBalance env (id' fromWallet) c) (\<lambda>fromBalance.
           andThen (getOrCreateBalance env (id' toWallet) c) (\<lambda>toBalance.
             if availableBalance fromBalance < a
             then throw (HttpException ''Insufficient available balance'' BAD_REQUEST)
             else
               andThen (saveBalances env
                  [((id' fromWallet, c),
                    fromBalance\<lparr> balance := balance fromBalance - a,
                                 availableBalance := availableBalance fromBalance - a \<rparr>),
                   ((id' toWallet, c),
                    toBalance\<lparr> balance := balance toBalance + a,
                               availableBalance := availableBalance toBalance + a \<rparr>)])
                 (\<lambda>_.
               saveTransaction env
                 \<lparr> userId = f, walletId = id' fromWallet, type = TRANSFER,
                   status = COMPLETED, amount = a, fromCurrency = c,
                   toCurrency = c, rate = 1, convertedAmount = a,
                   reference = None,
                   description =
                     (if d = [] then ''Transfer to user '' @ t
                      else d) \<rparr>)))
       | _ \<Rightarrow> throw (HttpException ''Sender or receiver wallet not found'' NOT_FOUND)) s2
      = (Inr tx, s')"
    unfolding transferFundsTry_def andThen_Inr by blast
  from rest obtain fw tw where found: "foundFrom = Some fw" "foundTo = Some tw"
    by (cases foundFrom; cases foundTo) (simp_all add: throw_Inr)
  from rest [unfolded found, simplified, unfolded andThen_Inr]
  obtain bf s3 bt s4 where
    b1: "getOrCreateBalance env (id' fw) c s2 = (Inr bf, s3)" and
    b2: "getOrCreateBalance env (id' tw) c s3 = (Inr bt, s4)" and
    rest2: "(if availableBalance bf < a
             then throw (HttpException ''Insufficient available balance'' BAD_REQUEST)
             else
               andThen (saveBalances env
                  [((id' fw, c), bf\<lparr> balance := balance bf - a,
                                 availableBalance := availableBalance bf - a \<rparr>),
                   ((id' tw, c), bt\<lparr> balance := balance bt + a,
                               availableBalance := availableBalance bt + a \<rparr>)])
                 (\<lambda>_.
               saveTransaction env
                 \<lparr> userId = f, walletId = id' fw, type = TRANSFER,
                   status = COMPLETED, amount = a, fromCurrency = c,
                   toCurrency = c, rate = 1, convertedAmount = a,
                   reference = None,
                   description =
                     (if d = [] then ''Transfer to user '' @ t
                      else d) \<rparr>)) s4 = (Inr tx, s')"
    by blast
  from rest2 have enough: "\<not> availableBalance bf < a"
    by (auto simp: throw_Inr split: if_splits)
  from rest2 enough obtain s5 where
    sv: "saveBalances env
                  [((id' fw, c), bf\<lparr> balance := balance bf - a,
                                 availableBalance := availableBalance bf - a \<rparr>),
                   ((id' tw, c), bt\<lparr> balance := balance bt + a,
                               availableBalance := availableBalance bt + a \<rparr>)] s4 = (Inr (), s5)" and
    st: "saveTransaction env
                 \<lparr> userId = f, walletId = id' fw, type = TRANSFER,
                   status = COMPLETED, amount = a, fromCurrency = c,
                   toCurrency = c, rate = 1, convertedAmount = a,
                   reference = None,
                   description =
                     (if d = [] then ''Transfer to user '' @ t
                      else d) \<rparr> s5 = (Inr tx, s')"
    by (auto simp: andThen_Inr)
  note f1 = findWallet_Inr [OF w1] and f2 = findWallet_Inr [OF w2]
    and g1 = getOrCreateBalance_Inr [OF b1] and g2 = getOrCreateBalance_Inr [OF b2]
    and v = saveBalances_Inr [OF sv] and t = saveTransaction_Inr [OF st]
  have F: "find (\<lambda>w. Wallet.userId w = f) (wallets (store s)) = Some fw"
    "find (\<lambda>w. Wallet.userId w = t) (wallets (store s)) = Some tw"
    using f1 f2 found by simp_all
  have bf: "bf = balanceAt (store s) (id' fw, c)"
    using g1 f1 f2 by simp
  have bt: "bt = balanceAt (store s) (id' tw, c)"
    using g1 g2 f1 f2 bf by (simp add: balanceAt_def)
  have H: "held s' = held s @ [WalletRow (id' fw), WalletRow (id' tw),
                              BalanceRow (id' fw) c, BalanceRow (id' tw) c]"
    using f1 f2 g1 g2 v t found by simp
  have B: "balances (store s') k =
           (if k = (id' tw, c) then Some (credit a (balanceAt (store s) k))
            else if k = (id' fw, c) then Some (credit (- a) (balanceAt (store s) k))
            else balances (store s) k)" for k
    using f1 f2 g1 g2 v t bf bt by (simp add: credit_def)
  have T: "tx = \<lparr> userId = f, walletId = id' fw, type = TRANSFER,
                   status = COMPLETED, amount = a, fromCurrency = c,
                   toCurrency = c, rate = 1, convertedAmount = a,
                   reference = None,
                   description = (if d = [] then ''Transfer to user '' @ t else d) \<rparr>"
    using t by simp
  have R: "transactions (store s') = transactions (store s) @ [tx]"
    "users (store s') = users (store s)" "wallets (store s') = wallets (store s)"
    using f1 f2 g1 g2 v t by simp_all
  have A: "a \<le> availableBalance (balanceAt (store s) (id' fw, c))"
    using enough bf by simp
  show ?thesis
    apply (rule exI [of _ fw], rule exI [of _ tw])
    apply (intro conjI allI)
    apply (simp_all only: F A H B R)
    apply (simp_all add: T)
    done
qed


lemma fundWalletTry_Inr:
  assumes "fundWalletTry env u a c ref s = (Inr tx, s')"
  shows "\<exists>w. find (\<lambda>w. Wallet.userId w = u) (wallets (store s)) = Some w
     \<and> held s' = held s @ [WalletRow (id' w), BalanceRow (id' w) c]
     \<and> (\<forall>k. balances (store s') k =
           (if k = (id' w, c) then Some (credit a (balanceAt (store s) k))
            else balances (store s) k))
     \<and> transactions (store s') = transactions (store s) @ [tx]
     \<and> users (store s') = users (store s) \<and> wallets (store s') = wallets (store s)
     \<and> Transaction.userId tx = u \<and> walletId tx = id' w \<and> type tx = FUNDING
     \<and> status tx = COMPLETED \<and> amount tx = a \<and> Transaction.rate tx = 1
     \<and> convertedAmount tx = a \<and> Transaction.fromCurrency tx = c
     \<and> Transaction.toCurrency tx = c \<and> reference tx = Some ref"
proof -
  let ?t = "\<lambda>w. \<lparr> userId = u, walletId = id' w, type = FUNDING,
               status = COMPLETED, amount = a, fromCurrency = c,
               toCurrency = c, rate = 1, convertedAmount = a,
               reference = Some ref,
               description = ''Wallet funded with '' @ numberToString env a
                               @ '' '' @ code c \<rparr>"
  let ?rows = "\<lambda>w balance'. [((id' w, c),
                balance'\<lparr> balance := balance balance' + a,
                          availableBalance := availableBalance balance' + a \<rparr>)]"
  let ?tail = "\<lambda>w. andThen (getOrCreateBalance env (id' w) c) (\<lambda>balance'.
           andThen (saveBalances env (?rows w balance')) (\<lambda>_. saveTransaction env (?t w)))"
  from assms obtain found s1 where
    w1: "findWallet env u s = (Inr found, s1)" and
    rest: "(case found of
         None \<Rightarrow> throw (HttpException ''Wallet not found'' NOT_FOUND)
       | Some wallet \<Rightarrow> ?tail wallet) s1 = (Inr tx, s')"
    unfolding fundWalletTry_def andThen_Inr by blast
  from rest obtain w where found: "found = Some w"
    by (cases found) (simp_all add: throw_Inr)
  from rest found have "?tail w s1 = (Inr tx, s')"
    by simp
  then obtain b s2 s3 where
    b1: "getOrCreateBalance env (id' w) c s1 = (Inr b, s2)" and
    sv: "saveBalances env (?rows w b) s2 = (Inr (), s3)" and
    st: "saveTransaction env (?t w) s3 = (Inr tx, s')"
    unfolding andThen_Inr by auto
  note f1 = findWallet_Inr [OF w1] and g1 = getOrCreateBalance_Inr [OF b1]
    and v = saveBalances_Inr [OF sv] and t = saveTransaction_Inr [OF st]
  have F: "find (\<lambda>w. Wallet.userId w = u) (wallets (store s)) = Some w"
    using f1 found by simp
  have b: "b = balanceAt (store s) (id' w, c)"
    using g1 f1 by simp
  have H: "held s' = held s @ [WalletRow (id' w), BalanceRow (id' w) c]"
    using f1 g1 v t found by simp
  have B: "balances (store s') k =
           (if k = (id' w, c) then Some (credit a (balanceAt (store s) k))
            else balances (store s) k)" for k
    using f1 g1 v t b by (simp add: credit_def)
  have T: "tx = ?t w"
    using t by simp
  have R: "transactions (store s') = transactions (store s) @ [tx]"
    "users (store s') = users (store s)" "wallets (store s') = wallets (store s)"
    using f1 g1 v t by simp_all
  show ?thesis
    apply (rule exI [of _ w])
    apply (intro conjI allI)
    apply (simp_all only: F H B R)
    apply (simp_all add: T)
    done
qed

lemma executeTradeTry_Inr:
  assumes "executeTradeTry env u fc tc a s = (Inr tx, s')"
  shows "\<exists>w rd r. find (\<lambda>w. Wallet.userId w = u) (wallets (store s)) = Some w
     \<and> fxGetRates env (code fc) = Inr rd \<and> rates rd (code tc) = Some r \<and> r \<noteq> 0
     \<and> a \<le> availableBalance (balanceAt (store s) (id' w, fc))
     \<and> held s' = held s @ [WalletRow (id' w), BalanceRow (id' w) fc, BalanceRow (id' w) tc]
     \<and> (\<forall>k. balances (store s') k =
           (if k = (id' w, tc) then Some (credit (a * r) (balanceAt (store s) k))
            else if k = (id' w, fc) then Some (credit (- a) (balanceAt (store s) k))
            else balances (store s) k))
     \<and> transactions (store s') = transactions (store s) @ [tx]
     \<and> users (store s') = users (store s) \<and> wallets (store s') = wallets (store s)
     \<and> Transaction.userId tx = u \<and> walletId tx = id' w \<and> type tx = TRADE
     \<and> status tx = COMPLETED \<and> amount tx = a \<and> Transaction.rate tx = r
     \<and> convertedAmount tx = a * r \<and> Transaction.fromCurrency tx = fc
     \<and> Transaction.toCurrency tx = tc"
proof -
  let ?t = "\<lambda>w r. \<lparr> userId = u, walletId = id' w, type = TRADE,
                   status = COMPLETED, amount = a,
                   fromCurrency = fc, toCurrency = tc,
                   rate = r, convertedAmount = a * r,
                   reference = None,
                   description =
                     ''Trade '' @ numberToString env a @ '' ''
                       @ code fc @ '' for '' @ toFixed8 env (a * r)
                       @ '' '' @ code tc @ '' at rate ''
                       @ numberToString env r \<rparr>"
  let ?rows = "\<lambda>w r fromBalance toBalance.
                  [((id' w, fc),
                    fromBalance\<lparr> balance := balance fromBalance - a,
                                 availableBalance := availableBalance fromBalance - a \<rparr>),
                   ((id' w, tc),
                    toBalance\<lparr> balance := balance toBalance + a * r,
                               availableBalance := availableBalance toBalance + a * r \<rparr>)]"
  let ?tail = "\<lambda>w r.
           andThen (getOrCreateBalance env (id' w) fc) (\<lambda>fromBalance.
           andThen (getOrCreateBalance env (id' w) tc) (\<lambda>toBalance.
             if availableBalance fromBalance < a
             then throw (HttpException (''Insufficient '' @ code fc @ '' balance'') BAD_REQUEST)
             else andThen (saveBalances env (?rows w r fromBalance toBalance))
                    (\<lambda>_. saveTransaction env (?t w r))))"
  from assms obtain found s1 where
    w1: "findWallet env u s = (Inr found, s1)" and
    rest: "(case found of
         None \<Rightarrow> throw (HttpException ''Wallet not found'' NOT_FOUND)
       | Some wallet \<Rightarrow>
           (case fxGetRates env (code fc) of
              Inl e \<Rightarrow> throw e
            | Inr ratesData \<Rightarrow>
                (case rates ratesData (code tc) of
                   None \<Rightarrow> throw (rateNotAvailable fc tc)
                 | Some rate' \<Rightarrow>
                     if rate' = 0 then throw (rateNotAvailable fc tc)
                     else ?tail wallet rate'))) s1 = (Inr tx, s')"
    unfolding executeTradeTry_def andThen_Inr by blast
  from rest obtain w where found: "found = Some w"
    by (cases found) (simp_all add: throw_Inr)
  from rest found obtain rd where rd: "fxGetRates env (code fc) = Inr rd"
    by (cases "fxGetRates env (code fc)") (simp_all add: throw_Inr)
  from rest found rd obtain r where r: "rates rd (code tc) = Some r"
    by (cases "rates rd (code tc)") (simp_all add: throw_Inr)
  from rest found rd r have r0: "r \<noteq> 0"
    by (auto simp: throw_Inr split: if_splits)
  from rest found rd r r0 have "?tail w r s1 = (Inr tx, s')"
    by simp
  then obtain bf s2 bt s3 where
    b1: "getOrCreateBalance env (id' w) fc s1 = (Inr bf, s2)" and
    b2: "getOrCreateBalance env (id' w) tc s2 = (Inr bt, s3)" and
    rest2: "(if availableBalance bf < a
             then throw (HttpException (''Insufficient '' @ code fc @ '' balance'') BAD_REQUEST)
             else andThen (saveBalances env (?rows w r bf bt))
                    (\<lambda>_. saveTransaction env (?t w r))) s3 = (Inr tx, s')"
    unfolding andThen_Inr by blast
  from rest2 have enough: "\<not> availableBalance bf < a"
    by (auto simp: throw_Inr split: if_splits)
  from rest2 enough obtain s4 where
    sv: "saveBalances env (?rows w r bf bt) s3 = (Inr (), s4)" and
    st: "saveTransaction env (?t w r) s4 = (Inr tx, s')"
    by (auto simp: andThen_Inr)
  note f1 = findWallet_Inr [OF w1]
    and g1 = getOrCreateBalance_Inr [OF b1] and g2 = getOrCreateBalance_Inr [OF b2]
    and v = saveBalances_Inr [OF sv] and t = saveTransaction_Inr [OF st]
  have F: "find (\<lambda>w. Wallet.userId w = u) (wallets (store s)) = Some w"
    using f1 found by simp
  have bf: "bf = balanceAt (store s) (id' w, fc)"
    using g1 f1 by simp
  have bt: "bt = balanceAt (store s) (id' w, tc)"
    using g1 g2 f1 bf by (simp add: balanceAt_def)
  have H: "held s' = held s @ [WalletRow (id' w), BalanceRow (id' w) fc, BalanceRow (id' w) tc]"
    using f1 g1 g2 v t found by simp
  have B: "balances (store s') k =
           (if k = (id' w, tc) then Some (credit (a * r) (balanceAt (store s) k))
            else if k = (id' w, fc) then Some (credit (- a) (balanceAt (store s) k))
            else balances (store s) k)" for k
    using f1 g1 g2 v t bf bt by (simp add: credit_def)
  have T: "tx = ?t w r"
    using t by simp
  have R: "transactions (store s') = transactions (store s) @ [tx]"
    "users (store s') = users (store s)" "wallets (store s') = wallets (store s)"
    using f1 g1 g2 v t by simp_all
  have A: "a \<le> availableBalance (balanceAt (store s) (id' w, fc))"
    using enough bf by simp
  show ?thesis
    apply (rule exI [of _ w], rule exI [of _ rd], rule exI [of _ r])
    apply (intro conjI allI)
    apply (simp_all only: F A H B R rd r)
    apply (simp_all add: T r0)
    done
qed



lemma fundWallet_Inr:
  assumes "result (fundWallet env db u a c ref) = Inr tx"
  shows "0 < a \<and> (\<exists>s'. fundWalletTry env u a c ref \<lparr> store = db, held = [] \<rparr> = (Inr tx, s')
            \<and> persisted (fundWallet env db u a c ref) = store s'
            \<and> acquired (fundWallet env db u a c ref) = held s')"
  using assms inTransaction_Inr [of env db "''Wallet funding failed''" "fundWalletTry env u a c ref" tx]
  by (auto simp: fundWallet_def rejected_def split: option.splits if_splits)

lemma transferFunds_Inr:
  assumes "result (transferFunds env db f t a c d) = Inr tx"
  shows "0 < a \<and> f \<noteq> t
     \<and> (\<exists>s'. transferFundsTry env f t a c d \<lparr> store = db, held = [] \<rparr> = (Inr tx, s')
            \<and> persisted (transferFunds env db f t a c d) = store s'
            \<and> acquired (transferFunds env db f t a c d) = held s')"
  using assms inTransaction_Inr [of env db "''Fund transfer failed''" "transferFundsTry env f t a c d" tx]
  by (auto simp: transferFunds_def rejected_def split: option.splits if_splits)

lemma executeTrade_Inr:
  assumes "result (executeTrade env db u fc tc a) = Inr tx"
  shows "0 < a \<and> fc \<noteq> tc
     \<and> (\<exists>s'. executeTradeTry env u fc tc a \<lparr> store = db, held = [] \<rparr> = (Inr tx, s')
            \<and> persisted (executeTrade env db u fc tc a) = store s'
            \<and> acquired (executeTrade env db u fc tc a) = held s')"
  using assms inTransaction_Inr [of env db "''Trade execution failed''" "executeTradeTry env u fc tc a" tx]
  by (auto simp: executeTrade_def rejected_def split: option.splits if_splits)


lemma credit_fields:
  "lockedBalance (credit x b) = lockedBalance b"
  "balance (credit x b) = balance b + x"
  "availableBalance (credit x b) = availableBalance b + x"
  by (simp_all add: credit_def)

text \<open>What a completed operation did to the balance at any key: a credit by some amount, and the amount keeps the
  available amount non-negative when the rate is.\<close>

lemma perform_credit:
  assumes "result (perform env db op) = Inr tx"
  shows "\<exists>x. balanceAt (persisted (perform env db op)) k = credit x (balanceAt db k)
           \<and> (0 \<le> Transaction.rate tx \<longrightarrow> 0 \<le> availableBalance (balanceAt db k)
                \<longrightarrow> 0 \<le> availableBalance (balanceAt db k) + x)"
proof (cases op)
  case (Fund u a c ref)
  with assms have r: "result (fundWallet env db u a c ref) = Inr tx" by simp
  from fundWallet_Inr [OF r] obtain s' where pos: "0 < a"
    and run: "fundWalletTry env u a c ref \<lparr> store = db, held = [] \<rparr> = (Inr tx, s')"
    and p: "persisted (fundWallet env db u a c ref) = store s'" by blast
  from fundWalletTry_Inr [OF run, unfolded Session.select_convs] obtain w :: Wallet where
    B: "\<forall>k. balances (store s') k =
           (if k = (id' w, c) then Some (credit a (balanceAt db k)) else balances db k)"
    by blast
  show ?thesis
  proof (cases "k = (id' w, c)")
    case True
    then have "balanceAt (persisted (perform env db op)) k = credit a (balanceAt db k)"
      using Fund p B [THEN spec, of k] by (simp add: balanceAt_def)
    with pos show ?thesis by (intro exI [of _ a]) simp
  next
    case False
    then have "balanceAt (persisted (perform env db op)) k = credit 0 (balanceAt db k)"
      using Fund p B [THEN spec, of k] by (simp add: balanceAt_def credit_def)
    then show ?thesis by (intro exI [of _ 0]) simp
  qed
next
  case (Transfer f t a c d)
  with assms have r: "result (transferFunds env db f t a c d) = Inr tx" by simp
  from transferFunds_Inr [OF r] obtain s' where pos: "0 < a"
    and run: "transferFundsTry env f t a c d \<lparr> store = db, held = [] \<rparr> = (Inr tx, s')"
    and p: "persisted (transferFunds env db f t a c d) = store s'" by blast
  from transferFundsTry_Inr [OF run, unfolded Session.select_convs] obtain fw tw :: Wallet where
    A: "a \<le> availableBalance (balanceAt db (id' fw, c))" and
    B: "\<forall>k. balances (store s') k =
           (if k = (id' tw, c) then Some (credit a (balanceAt db k))
            else if k = (id' fw, c) then Some (credit (- a) (balanceAt db k))
            else balances db k)"
    by blast
  consider "k = (id' tw, c)" | "k \<noteq> (id' tw, c)" "k = (id' fw, c)"
    | "k \<noteq> (id' tw, c)" "k \<noteq> (id' fw, c)" by blast
  then show ?thesis
  proof cases
    case 1
    then have "balanceAt (persisted (perform env db op)) k = credit a (balanceAt db k)"
      using Transfer p B [THEN spec, of k] by (simp add: balanceAt_def)
    with pos show ?thesis by (intro exI [of _ a]) simp
  next
    case 2
    then have "balanceAt (persisted (perform env db op)) k = credit (- a) (balanceAt db k)"
      using Transfer p B [THEN spec, of k] by (simp add: balanceAt_def)
    with A 2 show ?thesis by (intro exI [of _ "- a"]) simp
  next
    case 3
    then have "balanceAt (persisted (perform env db op)) k = credit 0 (balanceAt db k)"
      using Transfer p B [THEN spec, of k] by (simp add: balanceAt_def credit_def)
    then show ?thesis by (intro exI [of _ 0]) simp
  qed
next
  case (Trade u fc tc a)
  with assms have r: "result (executeTrade env db u fc tc a) = Inr tx" by simp
  from executeTrade_Inr [OF r] obtain s' where pos: "0 < a"
    and run: "executeTradeTry env u fc tc a \<lparr> store = db, held = [] \<rparr> = (Inr tx, s')"
    and p: "persisted (executeTrade env db u fc tc a) = store s'" by blast
  from executeTradeTry_Inr [OF run, unfolded Session.select_convs] obtain w :: Wallet and r where
    A: "a \<le> availableBalance (balanceAt db (id' w, fc))" and
    B: "\<forall>k. balances (store s') k =
           (if k = (id' w, tc) then Some (credit (a * r) (balanceAt db k))
            else if k = (id' w, fc) then Some (credit (- a) (balanceAt db k))
            else balances db k)" and
    R: "Transaction.rate tx = r"
    by blast
  consider "k = (id' w, tc)" | "k \<noteq> (id' w, tc)" "k = (id' w, fc)"
    | "k \<noteq> (id' w, tc)" "k \<noteq> (id' w, fc)" by blast
  then show ?thesis
  proof cases
    case 1
    then have "balanceAt (persisted (perform env db op)) k = credit (a * r) (balanceAt db k)"
      using Trade p B [THEN spec, of k] by (simp add: balanceAt_def)
    with pos R show ?thesis by (intro exI [of _ "a * r"]) simp
  next
    case 2
    then have "balanceAt (persisted (perform env db op)) k = credit (- a) (balanceAt db k)"
      using Trade p B [THEN spec, of k] by (simp add: balanceAt_def)
    with A 2 show ?thesis by (intro exI [of _ "- a"]) simp
  next
    case 3
    then have "balanceAt (persisted (perform env db op)) k = credit 0 (balanceAt db k)"
      using Trade p B [THEN spec, of k] by (simp add: balanceAt_def credit_def)
    then show ?thesis by (intro exI [of _ 0]) simp
  qed
qed

text \<open>
  C1, as the code has it. A completed fund, transfer or trade never changes the locked amount
  of a balance and changes its total and its available amount by the same quantity, so
  \<open>total = locked + available\<close> is kept; the available amount stays non-negative
  provided the rate recorded by the operation is not negative (it is 1 for a fund or a
  transfer, and the rate answered by the rate service for a trade).
\<close>

theorem operations_keep_balances_consistent:
  assumes "result (perform env db op) = Inr tx"
  shows "lockedBalance (balanceAt (persisted (perform env db op)) k)
          = lockedBalance (balanceAt db k)
     \<and> balance (balanceAt (persisted (perform env db op)) k) - balance (balanceAt db k)
          = availableBalance (balanceAt (persisted (perform env db op)) k)
              - availableBalance (balanceAt db k)
     \<and> (0 \<le> Transaction.rate tx \<longrightarrow> consistent (balanceAt db k)
          \<longrightarrow> consistent (balanceAt (persisted (perform env db op)) k))"
proof -
  from perform_credit [OF assms, of k] obtain x where
    c: "balanceAt (persisted (perform env db op)) k = credit x (balanceAt db k)" and
    nn: "0 \<le> Transaction.rate tx \<longrightarrow> 0 \<le> availableBalance (balanceAt db k)
                \<longrightarrow> 0 \<le> availableBalance (balanceAt db k) + x"
    by blast
  show ?thesis
    using nn by (simp add: c credit_fields consistent_def)
qed


section \<open>Transfers\<close>

lemmas example_defs = exampleDb_def exampleEnv_def quoting_def
  fundWallet_def fundWalletTry_def transferFunds_def transferFundsTry_def
  executeTrade_def executeTradeTry_def rateNotAvailable_def checkUserVerified_def
  inTransaction_def findWallet_def getOrCreateBalance_def saveTransaction_def
  andThen_def throw_def return_def call_def rejected_def Let_def

lemma example_trade:
  assumes "r \<noteq> 0"
  shows "result (executeTrade (exampleEnv (\<lambda>q. None) (quoting r)) exampleDb ''u1'' USD EUR 100)
       = Inr \<lparr> userId = ''u1'', walletId = ''w1'', type = TRADE, status = COMPLETED,
               amount = 100, fromCurrency = USD, toCurrency = EUR, rate = r,
               convertedAmount = 100 * r, reference = None,
               description = ''Trade # USD for # EUR at rate #'' \<rparr>"
    and "balances (persisted (executeTrade (exampleEnv (\<lambda>q. None) (quoting r)) exampleDb ''u1'' USD EUR 100)) (''w1'', EUR)
       = Some \<lparr> balance = 20 + 100 * r, lockedBalance = 0, availableBalance = 20 + 100 * r \<rparr>"
    and "balances (persisted (executeTrade (exampleEnv (\<lambda>q. None) (quoting r)) exampleDb ''u1'' USD EUR 100)) (''w1'', USD)
       = Some \<lparr> balance = 900, lockedBalance = 0, availableBalance = 900 \<rparr>"
    and "acquired (executeTrade (exampleEnv (\<lambda>q. None) (quoting r)) exampleDb ''u1'' USD EUR 100)
       = [WalletRow ''w1'', BalanceRow ''w1'' USD, BalanceRow ''w1'' EUR]"
    and "transactions (persisted (executeTrade (exampleEnv (\<lambda>q. None) (quoting r)) exampleDb ''u1'' USD EUR 100))
       = [\<lparr> userId = ''u1'', walletId = ''w1'', type = TRADE, status = COMPLETED,
               amount = 100, fromCurrency = USD, toCurrency = EUR, rate = r,
               convertedAmount = 100 * r, reference = None,
               description = ''Trade # USD for # EUR at rate #'' \<rparr>]"
  using assms by (simp_all add: example_defs)















section \<open>Balance invariant: examples\<close>

theorem operations_keep_balances_consistent_witness:
  "result (perform (exampleEnv (\<lambda>q. None) (quoting 0.85)) exampleDb (Trade ''u1'' USD EUR 100))
     = Inr \<lparr> userId = ''u1'', walletId = ''w1'', type = TRADE, status = COMPLETED,
               amount = 100, fromCurrency = USD, toCurrency = EUR, rate = 0.85,
               convertedAmount = 100 * 0.85, reference = None,
               description = ''Trade # USD for # EUR at rate #'' \<rparr>
   \<and> consistent (balanceAt exampleDb (''w1'', EUR))
   \<and> consistent (balanceAt (persisted (perform (exampleEnv (\<lambda>q. None) (quoting 0.85)) exampleDb
                     (Trade ''u1'' USD EUR 100))) (''w1'', EUR))"
  using operations_keep_balances_consistent [of "exampleEnv (\<lambda>q. None) (quoting 0.85)" exampleDb
      "Trade ''u1'' USD EUR 100"
      "\<lparr> userId = ''u1'', walletId = ''w1'', type = TRADE, status = COMPLETED,
               amount = 100, fromCurrency = USD, toCurrency = EUR, rate = 0.85,
               convertedAmount = 100 * 0.85, reference = None,
               description = ''Trade # USD for # EUR at rate #'' \<rparr>" "(''w1'', EUR)"]
    example_trade(1) [of "0.85"]
  by (simp add: consistent_def balanceAt_def zeroBalance_def exampleDb_def)

text \<open>
  C1, as the claim states it, fails for a trade: the rate service answers with a negative
  rate, the trade completes, and the EUR balance, consistent before, ends with a negative
  available amount.
\<close>

theorem negative_rate_counterexample:
  "consistent (balanceAt exampleDb (''w1'', EUR))
   \<and> result (perform (exampleEnv (\<lambda>q. None) (quoting (- 1))) exampleDb (Trade ''u1'' USD EUR 100))
     = Inr \<lparr> userId = ''u1'', walletId = ''w1'', type = TRADE, status = COMPLETED,
               amount = 100, fromCurrency = USD, toCurrency = EUR, rate = - 1,
               convertedAmount = 100 * (- 1), reference = None,
               description = ''Trade # USD for # EUR at rate #'' \<rparr>
   \<and> availableBalance (balanceAt (persisted (perform (exampleEnv (\<lambda>q. None) (quoting (- 1)))
                     exampleDb (Trade ''u1'' USD EUR 100))) (''w1'', EUR)) = - 80
   \<and> \<not> consistent (balanceAt (persisted (perform (exampleEnv (\<lambda>q. None) (quoting (- 1)))
                     exampleDb (Trade ''u1'' USD EUR 100))) (''w1'', EUR))"
  using example_trade(1,2) [of "- 1"]
  by (simp add: consistent_def balanceAt_def zeroBalance_def exampleDb_def)

section \<open>Rollback\<close>

text \<open>
  When the second of two rows cannot be saved, the first is already written in the
  session of the query runner.
\<close>

lemma saveBalances_second_fails:
  assumes "dbFailure env (SaveBalance (fst k1) (snd k1)) = None"
    and "dbFailure env (SaveBalance (fst k2) (snd k2)) = Some e"
  shows "saveBalances env [(k1, b1), (k2, b2)] s
           = (Inl e, s\<lparr> store := (store s)\<lparr> balances := (balances (store s))(k1 \<mapsto> b1) \<rparr> \<rparr>)"
  using assms by (simp add: andThen_def call_def return_def throw_def)




section \<open>Trades\<close>










section \<open>Order of the holds\<close>

text \<open>The holds taken by a step, whether it succeeds or fails.\<close>

lemma andThenE:
  assumes "andThen m f s = (r, s')"
  obtains e where "m s = (Inl e, s')" "r = Inl e"
    | x s1 where "m s = (Inr x, s1)" "f x s1 = (r, s')"
  using assms by (auto simp: andThen_def split: prod.splits sum.splits)

lemma call_any: "call env q s = (r, s') \<Longrightarrow> s' = s"
  by (auto simp: call_def throw_def return_def split: option.splits)

lemma findWallet_any:
  assumes "findWallet env u s = (r, s')"
  shows "store s' = store s"
    and "r = Inr (Some w) \<Longrightarrow> find (\<lambda>w. Wallet.userId w = u) (wallets (store s)) = Some w
            \<and> held s' = held s @ [WalletRow (id' w)]"
    and "r = Inr None \<Longrightarrow> find (\<lambda>w. Wallet.userId w = u) (wallets (store s)) = None
            \<and> held s' = held s"
    and "r = Inl e \<Longrightarrow> held s' = held s"
  using assms
  by (auto simp: findWallet_def elim!: andThenE dest!: call_any split: option.splits)

lemma getOrCreateBalance_any:
  assumes "getOrCreateBalance env w c s = (r, s')"
  shows "wallets (store s') = wallets (store s)"
    and "r = Inr b \<Longrightarrow> held s' = held s @ [BalanceRow w c]"
    and "r = Inl e \<Longrightarrow> held s' = held s"
  using assms
  by (auto simp: getOrCreateBalance_def Let_def elim!: andThenE dest!: call_any
      split: option.splits)

lemma saveBalances_any:
  "saveBalances env rows s = (r, s') \<Longrightarrow> held s' = held s"
proof (induction rows arbitrary: s)
  case Nil
  then show ?case by (simp add: return_def)
next
  case (Cons row rows)
  obtain k b where row: "row = (k, b)" by (cases row)
  from Cons.prems show ?case
    unfolding row saveBalances.simps
    by (elim andThenE) (auto dest!: call_any Cons.IH)
qed

lemma saveTransaction_any:
  "saveTransaction env t s = (r, s') \<Longrightarrow> held s' = held s"
  by (auto simp: saveTransaction_def elim!: andThenE dest!: call_any)


lemma save_tail_held:
  "andThen (saveBalances env rows) (\<lambda>_. saveTransaction env tx) s = (r, s') \<Longrightarrow> held s' = held s"
  by (elim andThenE) (auto dest!: saveBalances_any saveTransaction_any)

lemma transferFundsTry_held:
  assumes run: "transferFundsTry env f t a c d s = (r, s')"
  shows "\<exists>xs. held s' = held s @ xs \<and> prefix xs (transferHolds (store s) f t c)"
proof -
  obtain r1 s1 where m1: "findWallet env f s = (r1, s1)" by (cases "findWallet env f s")
  note w1 = findWallet_any [OF m1]
  show ?thesis
  proof (cases r1)
    case (Inl e)
    with run m1 have "s' = s1" by (simp add: transferFundsTry_def andThen_def)
    with w1(4) [OF Inl] show ?thesis by simp
  next
    case r1: (Inr foundFrom)
    obtain r2 s2 where m2: "findWallet env t s1 = (r2, s2)" by (cases "findWallet env t s1")
    note w2 = findWallet_any [OF m2]
    show ?thesis
    proof (cases r2)
      case (Inl e)
      with run m1 m2 r1 have "s' = s2" by (simp add: transferFundsTry_def andThen_def)
      with w2(4) [OF Inl] w1 r1 show ?thesis
        by (cases foundFrom) (auto simp: transferHolds_def split: option.splits)
    next
      case r2: (Inr foundTo)
      show ?thesis
      proof (cases "\<exists>fw tw. foundFrom = Some fw \<and> foundTo = Some tw")
        case False
        with run m1 m2 r1 r2 have "s' = s2"
          by (cases foundFrom; cases foundTo)
             (simp_all add: transferFundsTry_def andThen_def throw_def)
        with False w1 w2 r1 r2 show ?thesis
          by (cases foundFrom; cases foundTo) (auto simp: transferHolds_def)
      next
        case True
        then obtain fw tw where found: "foundFrom = Some fw" "foundTo = Some tw" by blast
        have h2: "held s2 = held s @ [WalletRow (id' fw), WalletRow (id' tw)]"
          and finds: "find (\<lambda>w. Wallet.userId w = f) (wallets (store s)) = Some fw"
            "find (\<lambda>w. Wallet.userId w = t) (wallets (store s)) = Some tw"
          using w1 w2 r1 r2 found by auto
        have full: "transferHolds (store s) f t c
            = [WalletRow (id' fw), WalletRow (id' tw), BalanceRow (id' fw) c, BalanceRow (id' tw) c]"
          using finds by (simp add: transferHolds_def)
        obtain r3 s3 where m3: "getOrCreateBalance env (id' fw) c s2 = (r3, s3)"
          by (cases "getOrCreateBalance env (id' fw) c s2")
        note g3 = getOrCreateBalance_any [OF m3]
        show ?thesis
        proof (cases r3)
          case (Inl e)
          with run m1 m2 m3 r1 r2 found have "s' = s3"
            by (simp add: transferFundsTry_def andThen_def)
          with g3(3) [OF Inl] h2 full show ?thesis by simp
        next
          case r3: (Inr fromBalance)
          obtain r4 s4 where m4: "getOrCreateBalance env (id' tw) c s3 = (r4, s4)"
            by (cases "getOrCreateBalance env (id' tw) c s3")
          note g4 = getOrCreateBalance_any [OF m4]
          show ?thesis
          proof (cases r4)
            case (Inl e)
            with run m1 m2 m3 m4 r1 r2 r3 found have "s' = s4"
              by (simp add: transferFundsTry_def andThen_def)
            with g4(3) [OF Inl] g3(2) [OF r3] h2 full show ?thesis by simp
          next
            case r4: (Inr toBalance)
            have h4: "held s4 = held s @ transferHolds (store s) f t c"
              using g4(2) [OF r4] g3(2) [OF r3] h2 full by simp
            have "held s' = held s4"
            proof (cases "availableBalance fromBalance < a")
              case True
              with run m1 m2 m3 m4 r1 r2 r3 r4 found show ?thesis
                by (simp add: transferFundsTry_def andThen_def throw_def)
            next
              case False
              with run m1 m2 m3 m4 r1 r2 r3 r4 found
              have "\<exists>rows tx. andThen (saveBalances env rows) (\<lambda>_. saveTransaction env tx) s4
                      = (r, s')"
                by (simp add: transferFundsTry_def andThen_def del: saveBalances.simps) blast
              then show ?thesis by (auto dest: save_tail_held)
            qed
            with h4 show ?thesis by simp
          qed
        qed
      qed
    qed
  qed
qed


lemma executeTradeTry_held:
  assumes run: "executeTradeTry env u fc tc a s = (r, s')"
  shows "\<exists>xs. held s' = held s @ xs \<and> prefix xs (tradeHolds (store s) u fc tc)"
proof -
  obtain r1 s1 where m1: "findWallet env u s = (r1, s1)" by (cases "findWallet env u s")
  note w1 = findWallet_any [OF m1]
  show ?thesis
  proof (cases r1)
    case (Inl e)
    with run m1 have "s' = s1" by (simp add: executeTradeTry_def andThen_def)
    with w1(4) [OF Inl] show ?thesis by simp
  next
    case r1: (Inr found)
    show ?thesis
    proof (cases found)
      case None
      with run m1 r1 have "s' = s1" by (simp add: executeTradeTry_def andThen_def throw_def)
      with w1(3) r1 None show ?thesis by simp
    next
      case (Some w)
      have h1: "held s1 = held s @ [WalletRow (id' w)]"
        and finds: "find (\<lambda>w. Wallet.userId w = u) (wallets (store s)) = Some w"
        using w1(2) r1 Some by auto
      have full: "tradeHolds (store s) u fc tc
          = [WalletRow (id' w), BalanceRow (id' w) fc, BalanceRow (id' w) tc]"
        using finds by (simp add: tradeHolds_def)
      show ?thesis
      proof (cases "\<exists>rd x. fxGetRates env (code fc) = Inr rd \<and> rates rd (code tc) = Some x
                      \<and> x \<noteq> 0")
        case False
        with run m1 r1 Some have "s' = s1"
          by (auto simp: executeTradeTry_def andThen_def throw_def
              split: sum.splits option.splits if_splits)
        with h1 full show ?thesis by simp
      next
        case True
        then obtain rd x where quote: "fxGetRates env (code fc) = Inr rd"
          "rates rd (code tc) = Some x" "x \<noteq> 0" by blast
        obtain r3 s3 where m3: "getOrCreateBalance env (id' w) fc s1 = (r3, s3)"
          by (cases "getOrCreateBalance env (id' w) fc s1")
        note g3 = getOrCreateBalance_any [OF m3]
        show ?thesis
        proof (cases r3)
          case (Inl e)
          with run m1 m3 r1 Some quote have "s' = s3"
            by (simp add: executeTradeTry_def andThen_def)
          with g3(3) [OF Inl] h1 full show ?thesis by simp
        next
          case r3: (Inr fromBalance)
          obtain r4 s4 where m4: "getOrCreateBalance env (id' w) tc s3 = (r4, s4)"
            by (cases "getOrCreateBalance env (id' w) tc s3")
          note g4 = getOrCreateBalance_any [OF m4]
          show ?thesis
          proof (cases r4)
            case (Inl e)
            with run m1 m3 m4 r1 r3 Some quote have "s' = s4"
              by (simp add: executeTradeTry_def andThen_def)
            with g4(3) [OF Inl] g3(2) [OF r3] h1 full show ?thesis by simp
          next
            case r4: (Inr toBalance)
            have h4: "held s4 = held s @ tradeHolds (store s) u fc tc"
              using g4(2) [OF r4] g3(2) [OF r3] h1 full by simp
            have "held s' = held s4"
            proof (cases "availableBalance fromBalance < a")
              case True
              with run m1 m3 m4 r1 r3 r4 Some quote show ?thesis
                by (simp add: executeTradeTry_def andThen_def throw_def)
            next
              case False
              with run m1 m3 m4 r1 r3 r4 Some quote
              have "\<exists>rows tx. andThen (saveBalances env rows) (\<lambda>_. saveTransaction env tx) s4
                      = (r, s')"
                by (simp add: executeTradeTry_def andThen_def del: saveBalances.simps) blast
              then show ?thesis by (auto dest: save_tail_held)
            qed
            with h4 show ?thesis by simp
          qed
        qed
      qed
    qed
  qed
qed

lemma inTransaction_held:
  assumes "\<And>r s'. body \<lparr> store = db, held = [] \<rparr> = (r, s') \<Longrightarrow> prefix (held s') L"
  shows "prefix (acquired (inTransaction env db msg body)) L"
proof -
  obtain r s' where b: "body \<lparr> store = db, held = [] \<rparr> = (r, s')"
    by (cases "body \<lparr> store = db, held = [] \<rparr>")
  from assms [OF b] b show ?thesis
    by (auto simp: inTransaction_def rejected_def andThen_def call_def throw_def return_def
        split: option.splits sum.splits)
qed

lemma acquired_prefix:
  "prefix (acquired (transferFunds env db f t a c d)) (transferHolds db f t c)"
  "prefix (acquired (executeTrade env db u fc tc a)) (tradeHolds db u fc tc)"
proof -
  have "prefix (acquired (inTransaction env db msg (transferFundsTry env f t a c d)))
          (transferHolds db f t c)" for msg
    by (rule inTransaction_held) (auto dest: transferFundsTry_held)
  then show "prefix (acquired (transferFunds env db f t a c d)) (transferHolds db f t c)"
    by (simp add: transferFunds_def rejected_def split: option.split)
  have "prefix (acquired (inTransaction env db msg (executeTradeTry env u fc tc a)))
          (tradeHolds db u fc tc)" for msg
    by (rule inTransaction_held) (auto dest: executeTradeTry_held)
  then show "prefix (acquired (executeTrade env db u fc tc a)) (tradeHolds db u fc tc)"
    by (simp add: executeTrade_def rejected_def split: option.split)
qed


text \<open>
  C6, as the code has it. Whatever its outcome, a transfer has acquired an initial part of
  this sequence of holds: the row of the sender's wallet, the row of the receiver's wallet,
  the sender's balance, the receiver's balance; and a trade an initial part of: the row of
  the owner's wallet, the balance in the source currency, the balance in the target
  currency. A completed operation has acquired the whole sequence. The order is that of the
  caller's arguments, whatever the owner ids and the currency codes are.
\<close>

theorem holds_follow_argument_order:
  "prefix (acquired (transferFunds env db f t a c d)) (transferHolds db f t c)
   \<and> (\<forall>tx. result (transferFunds env db f t a c d) = Inr tx \<longrightarrow>
      (\<exists>fw tw. find (\<lambda>w. Wallet.userId w = f) (wallets db) = Some fw
         \<and> find (\<lambda>w. Wallet.userId w = t) (wallets db) = Some tw
         \<and> acquired (transferFunds env db f t a c d)
             = [WalletRow (id' fw), WalletRow (id' tw),
                BalanceRow (id' fw) c, BalanceRow (id' tw) c]))
   \<and> prefix (acquired (executeTrade env db u fc tc b)) (tradeHolds db u fc tc)
   \<and> (\<forall>tx. result (executeTrade env db u fc tc b) = Inr tx \<longrightarrow>
      (\<exists>w. find (\<lambda>w. Wallet.userId w = u) (wallets db) = Some w
         \<and> acquired (executeTrade env db u fc tc b)
             = [WalletRow (id' w), BalanceRow (id' w) fc, BalanceRow (id' w) tc]))"
proof (intro conjI allI impI)
  show "prefix (acquired (transferFunds env db f t a c d)) (transferHolds db f t c)"
    by (rule acquired_prefix)
  show "prefix (acquired (executeTrade env db u fc tc b)) (tradeHolds db u fc tc)"
    by (rule acquired_prefix)
next
  fix tx assume tx: "result (transferFunds env db f t a c d) = Inr tx"
  from transferFunds_Inr [OF tx] obtain s' where
    run: "transferFundsTry env f t a c d \<lparr> store = db, held = [] \<rparr> = (Inr tx, s')"
    and h: "acquired (transferFunds env db f t a c d) = held s'" by blast
  from transferFundsTry_Inr [OF run, unfolded Session.select_convs]
  obtain fw tw :: Wallet where
    "find (\<lambda>w. Wallet.userId w = f) (wallets db) = Some fw"
    "find (\<lambda>w. Wallet.userId w = t) (wallets db) = Some tw"
    "held s' = [] @ [WalletRow (id' fw), WalletRow (id' tw),
                BalanceRow (id' fw) c, BalanceRow (id' tw) c]"
    by blast
  then show "\<exists>fw tw. find (\<lambda>w. Wallet.userId w = f) (wallets db) = Some fw
         \<and> find (\<lambda>w. Wallet.userId w = t) (wallets db) = Some tw
         \<and> acquired (transferFunds env db f t a c d)
             = [WalletRow (id' fw), WalletRow (id' tw),
                BalanceRow (id' fw) c, BalanceRow (id' tw) c]"
    using h by simp
next
  fix tx assume tx: "result (executeTrade env db u fc tc b) = Inr tx"
  from executeTrade_Inr [OF tx] obtain s' where
    run: "executeTradeTry env u fc tc b \<lparr> store = db, held = [] \<rparr> = (Inr tx, s')"
    and h: "acquired (executeTrade env db u fc tc b) = held s'" by blast
  from executeTradeTry_Inr [OF run, unfolded Session.select_convs]
  obtain w :: Wallet where
    "find (\<lambda>w. Wallet.userId w = u) (wallets db) = Some w"
    "held s' = [] @ [WalletRow (id' w), BalanceRow (id' w) fc, BalanceRow (id' w) tc]"
    by blast
  then show "\<exists>w. find (\<lambda>w. Wallet.userId w = u) (wallets db) = Some w
         \<and> acquired (executeTrade env db u fc tc b)
             = [WalletRow (id' w), BalanceRow (id' w) fc, BalanceRow (id' w) tc]"
    using h by simp
qed

lemma example_transfer_back:
  "result (transferFunds (exampleEnv (\<lambda>q. None) (quoting 1)) exampleDb ''u2'' ''u1'' 10 USD [])
     = Inr \<lparr> userId = ''u2'', walletId = ''w2'', type = TRANSFER, status = COMPLETED,
             amount = 10, fromCurrency = USD, toCurrency = USD, rate = 1,
             convertedAmount = 10, reference = None,
             description = ''Transfer to user u1'' \<rparr>"
  "acquired (transferFunds (exampleEnv (\<lambda>q. None) (quoting 1)) exampleDb ''u2'' ''u1'' 10 USD [])
     = [WalletRow ''w2'', WalletRow ''w1'', BalanceRow ''w2'' USD, BalanceRow ''w1'' USD]"
  by (simp_all add: example_defs)

theorem holds_follow_argument_order_witness:
  "acquired (transferFunds (exampleEnv (\<lambda>q. None) (quoting 1)) exampleDb ''u2'' ''u1'' 10 USD [])
     = [WalletRow ''w2'', WalletRow ''w1'', BalanceRow ''w2'' USD, BalanceRow ''w1'' USD]
   \<and> acquired (executeTrade (exampleEnv (\<lambda>q. None) (quoting 0.85)) exampleDb ''u1'' USD EUR 100)
     = [WalletRow ''w1'', BalanceRow ''w1'' USD, BalanceRow ''w1'' EUR]"
  using holds_follow_argument_order [of "exampleEnv (\<lambda>q. None) (quoting 1)" exampleDb
          "''u2''" "''u1''" 10 USD "[]" "''u1''" USD EUR 100]
        holds_follow_argument_order [of "exampleEnv (\<lambda>q. None) (quoting 0.85)" exampleDb
          "''u2''" "''u1''" 10 USD "[]" "''u1''" USD EUR 100]
        example_transfer_back(1) example_trade(1) [of "0.85"]
  by (simp add: exampleDb_def)

text \<open>
  C6, as the claim states it, fails: a transfer from owner u2 to owner u1 holds the balance
  of u2 before that of u1, and a trade from USD to EUR holds the USD balance before the EUR
  balance.
\<close>

theorem caller_order_counterexample:
  "filter isBalanceRow
     (acquired (transferFunds (exampleEnv (\<lambda>q. None) (quoting 1)) exampleDb
                  ''u2'' ''u1'' 10 USD []))
     \<noteq> specifiedTransferHolds exampleDb ''u2'' ''u1'' USD
   \<and> filter isBalanceRow
     (acquired (executeTrade (exampleEnv (\<lambda>q. None) (quoting 0.85)) exampleDb
                  ''u1'' USD EUR 100))
     \<noteq> specifiedTradeHolds ''w1'' USD EUR"
  using example_transfer_back(2) example_trade(4) [of "0.85"]
  by (simp add: specifiedTransferHolds_def specifiedTradeHolds_def exampleDb_def
        min_def max_def)


end
